theory Spec2Isabelle
  imports Main
begin

section \<open>Common vocabulary\<close>

text \<open>
  Go run-time failures are values of \<open>panic\<close>; a function that may panic returns
  \<open>panic + 'a\<close> with \<open>Inl\<close> for the panic. A Go pointer \<open>*T\<close> is a \<open>T option\<close>
  (\<open>None\<close> is \<open>nil\<close>), and dereferencing \<open>nil\<close> is the panic
  \<open>NilPointerDereference\<close>. A slice expression out of bounds and a failed type assertion
  are the other two panics. A Go \<open>string\<close> is a byte sequence, here \<open>string\<close>.
\<close>

datatype panic = NilPointerDereference | SliceBoundsOutOfRange | InterfaceConversion

definition deref :: "'a option \<Rightarrow> panic + 'a" where
  "deref p = (case p of None \<Rightarrow> Inl NilPointerDereference | Some v \<Rightarrow> Inr v)"

section \<open>DNS A records: \<open>resource_arm_dns_a_record.go\<close>\<close>

record ARecord =
  Ipv4Address :: "string option"

text \<open>
  The body of \<open>for _, record := range *records\<close> in \<open>flattenAzureStackDnsARecords\<close>:
  \<open>results = append(results, *record.Ipv4Address)\<close>.
\<close>

fun flattenARecords_loop :: "ARecord list \<Rightarrow> string list \<Rightarrow> panic + string list" where
  "flattenARecords_loop [] results = Inr results"
| "flattenARecords_loop (record # rest) results =
     (case deref (Ipv4Address record) of
        Inl p \<Rightarrow> Inl p
      | Inr ip \<Rightarrow> flattenARecords_loop rest (results @ [ip]))"

text \<open>
  \<open>flattenAzureStackDnsARecords\<close>: the first statement,
  \<open>results := make([]string, 0, len(*records))\<close>, dereferences \<open>records\<close> before the
  test \<open>records != nil\<close> is reached.
\<close>

definition flattenAzureStackDnsARecords :: "ARecord list option \<Rightarrow> panic + string list" where
  "flattenAzureStackDnsARecords records =
     (case deref records of
        Inl p \<Rightarrow> Inl p
      | Inr rs \<Rightarrow>
          (let results = [] in
           if records \<noteq> None then flattenARecords_loop rs results else Inr results))"

section \<open>Route table data source: flattening\<close>

record RoutePropertiesFormat =
  AddressPrefix :: "string option"
  NextHopType :: string
  NextHopIPAddress :: "string option"

record Route =
  Route_Name :: "string option"
  Route_Properties :: "RoutePropertiesFormat option"

record Subnet =
  Subnet_ID :: "string option"

text \<open>
  One iteration of the loop of \<open>flattenRouteTableDataSourceRoutes\<close>: the map \<open>r\<close> built
  for one route. The values stored are all strings.
\<close>

definition flattenRoute :: "Route \<Rightarrow> panic + (string \<rightharpoonup> string)" where
  "flattenRoute route =
     (case deref (Route_Name route) of
        Inl p \<Rightarrow> Inl p
      | Inr name \<Rightarrow>
          (let r = [''name'' \<mapsto> name] in
           case Route_Properties route of
             None \<Rightarrow> Inr r
           | Some props \<Rightarrow>
               (case deref (AddressPrefix props) of
                  Inl p \<Rightarrow> Inl p
                | Inr prefix \<Rightarrow>
                    (let r = r(''address_prefix'' \<mapsto> prefix);
                         r = r(''next_hop_type'' \<mapsto> NextHopType props)
                     in case NextHopIPAddress props of
                          None \<Rightarrow> Inr r
                        | Some ip \<Rightarrow> Inr (r(''next_hop_in_ip_address'' \<mapsto> ip))))))"

fun flattenRoutes_loop ::
  "Route list \<Rightarrow> (string \<rightharpoonup> string) list \<Rightarrow> panic + (string \<rightharpoonup> string) list" where
  "flattenRoutes_loop [] results = Inr results"
| "flattenRoutes_loop (route # rest) results =
     (case flattenRoute route of
        Inl p \<Rightarrow> Inl p
      | Inr r \<Rightarrow> flattenRoutes_loop rest (results @ [r]))"

definition flattenRouteTableDataSourceRoutes ::
  "Route list option \<Rightarrow> panic + (string \<rightharpoonup> string) list" where
  "flattenRouteTableDataSourceRoutes input =
     (let results = [] in
      case input of
        None \<Rightarrow> Inr results
      | Some routes \<Rightarrow> flattenRoutes_loop routes results)"

fun flattenSubnets_loop :: "Subnet list \<Rightarrow> string list \<Rightarrow> panic + string list" where
  "flattenSubnets_loop [] output = Inr output"
| "flattenSubnets_loop (subnet # rest) output =
     (case deref (Subnet_ID subnet) of
        Inl p \<Rightarrow> Inl p
      | Inr i \<Rightarrow> flattenSubnets_loop rest (output @ [i]))"

definition flattenRouteTableDataSourceSubnets :: "Subnet list option \<Rightarrow> panic + string list" where
  "flattenRouteTableDataSourceSubnets subnets =
     (let output = [] in
      case subnets of
        None \<Rightarrow> Inr output
      | Some ss \<Rightarrow> flattenSubnets_loop ss output)"

section \<open>\<open>base64Encode\<close> and Go's \<open>base64.StdEncoding\<close>\<close>

text \<open>
  \<open>base64.StdEncoding\<close> of Go's standard library: the alphabet of RFC 4648 with the padding
  character \<open>=\<close>, not strict. The values handled are below \<open>2^24\<close>, so Go's shifts and
  masks on \<open>uint\<close> are written with \<open>div\<close> and \<open>mod\<close> on natural numbers:
  \<open>val >> 18 & 0x3F\<close> is \<open>val div 2^18 mod 64\<close>.
\<close>

definition encodeStd :: string where
  "encodeStd = ''ABCDEFGHIJKLMNOPQRSTUVWXYZabcdefghijklmnopqrstuvwxyz0123456789+/''"

definition padChar :: char where
  "padChar = CHR ''=''"

text \<open>
  \<open>EncodeToString\<close>: three source bytes give four characters; a remainder of one or two
  bytes gives two or three characters and padding.
\<close>

fun EncodeToString :: "string \<Rightarrow> string" where
  "EncodeToString (a # b # c # rest) =
     (let val = of_char a * 2 ^ 16 + of_char b * 2 ^ 8 + of_char c :: nat
      in encodeStd ! (val div 2 ^ 18 mod 64) # encodeStd ! (val div 2 ^ 12 mod 64)
         # encodeStd ! (val div 2 ^ 6 mod 64) # encodeStd ! (val mod 64) # EncodeToString rest)"
| "EncodeToString [a, b] =
     (let val = of_char a * 2 ^ 16 + of_char b * 2 ^ 8 :: nat
      in [encodeStd ! (val div 2 ^ 18 mod 64), encodeStd ! (val div 2 ^ 12 mod 64),
          encodeStd ! (val div 2 ^ 6 mod 64), padChar])"
| "EncodeToString [a] =
     (let val = of_char a * 2 ^ 16 :: nat
      in [encodeStd ! (val div 2 ^ 18 mod 64), encodeStd ! (val div 2 ^ 12 mod 64),
          padChar, padChar])"
| "EncodeToString [] = []"

text \<open>
  \<open>decodeMap\<close>: the value of a character of the alphabet; \<open>None\<close> stands for the entry
  \<open>0xFF\<close> of every other byte.
\<close>

definition decodeMap :: "char \<Rightarrow> nat option" where
  "decodeMap c = map_of (zip encodeStd [0..<64]) c"

definition is_newline :: "char \<Rightarrow> bool" where
  "is_newline c = (c = CHR 0x0A \<or> c = CHR 0x0D)"

datatype CorruptInputError = CorruptInputError

text \<open>
  The bytes of one quantum: \<open>dbuf\<close> holds the \<open>dlen\<close> values read (2, 3 or 4 of them);
  \<open>val\<close> is assembled from four 6-bit values, the missing ones being zero, and \<open>dlen - 1\<close>
  bytes are written.
\<close>

definition quantum_bytes :: "nat list \<Rightarrow> string" where
  "quantum_bytes dbuf =
     (let d = dbuf @ replicate (4 - length dbuf) 0;
          val = d ! 0 * 2 ^ 18 + d ! 1 * 2 ^ 12 + d ! 2 * 2 ^ 6 + d ! 3
      in take (length dbuf - 1)
           [char_of (val div 2 ^ 16), char_of (val div 2 ^ 8), char_of val])"

text \<open>
  \<open>Decode\<close>, as its loop over \<open>decodeQuantum\<close> (the fast paths for 8 and 4 valid
  characters decode the same quanta). \<open>dbuf\<close> holds the values read so far in the current
  quantum. Carriage returns and newlines are skipped everywhere. The input may end
  between quanta only. Padding is accepted after two values (as \<open>==\<close>) or after three
  (as \<open>=\<close>), and only newlines may follow it.
\<close>

fun Decode :: "nat list \<Rightarrow> string \<Rightarrow> CorruptInputError + string" where
  "Decode dbuf [] = (if dbuf = [] then Inr [] else Inl CorruptInputError)"
| "Decode dbuf (c # src) =
     (case decodeMap c of
        Some out \<Rightarrow>
          if length dbuf = 3
          then (case Decode [] src of
                  Inl e \<Rightarrow> Inl e
                | Inr bytes \<Rightarrow> Inr (quantum_bytes (dbuf @ [out]) @ bytes))
          else Decode (dbuf @ [out]) src
      | None \<Rightarrow>
          if is_newline c then Decode dbuf src
          else if c \<noteq> padChar then Inl CorruptInputError
          else if length dbuf < 2 then Inl CorruptInputError
          else if length dbuf = 2
          then (case dropWhile is_newline src of
                  [] \<Rightarrow> Inl CorruptInputError
                | p # src' \<Rightarrow>
                    if p \<noteq> padChar then Inl CorruptInputError
                    else if dropWhile is_newline src' \<noteq> [] then Inl CorruptInputError
                    else Inr (quantum_bytes dbuf))
          else if dropWhile is_newline src \<noteq> [] then Inl CorruptInputError
          else Inr (quantum_bytes dbuf))"

definition DecodeString :: "string \<Rightarrow> CorruptInputError + string" where
  "DecodeString s = Decode [] s"

definition isBase64Encoded :: "string \<Rightarrow> bool" where
  "isBase64Encoded data = (case DecodeString data of Inl err \<Rightarrow> False | Inr _ \<Rightarrow> True)"

definition base64Encode :: "string \<Rightarrow> string" where
  "base64Encode data = (if isBase64Encoded data then data else EncodeToString data)"

section \<open>The named-mutex registry \<open>MutexKV\<close>\<close>

text \<open>
  \<open>MutexKV.store\<close> maps a key to a pointer to a heap-allocated \<open>sync.Mutex\<close>. A pointer is
  the address of the mutex, a natural number; \<open>&sync.Mutex{}\<close> allocates the next unused
  address (\<open>allocated\<close> counts the mutexes allocated so far), and \<open>locked\<close> is the set of
  mutexes currently held. The field \<open>MutexKV.lock\<close> makes each call of \<open>get\<close> atomic, so a
  run of the registry is a sequence of calls in the order in which they take that lock.
\<close>

type_synonym mutex_ref = nat

record MutexKV =
  store :: "string \<rightharpoonup> mutex_ref"
  allocated :: nat
  locked :: "mutex_ref set"

definition NewMutexKV :: MutexKV where
  "NewMutexKV = \<lparr>store = Map.empty, allocated = 0, locked = {}\<rparr>"

text \<open>\<open>func (m *MutexKV) get(key string) *sync.Mutex\<close>\<close>

definition get :: "string \<Rightarrow> MutexKV \<Rightarrow> mutex_ref \<times> MutexKV" where
  "get key m =
     (case store m key of
        Some mutex \<Rightarrow> (mutex, m)
      | None \<Rightarrow>
          (let mutex = allocated m
           in (mutex, m\<lparr>store := (store m)(key \<mapsto> mutex), allocated := Suc (allocated m)\<rparr>)))"

text \<open>
  \<open>sync.Mutex.Lock\<close> on a held mutex blocks the caller; \<open>sync.Mutex.Unlock\<close> on a mutex that
  is not held is a fatal run-time error.
\<close>

datatype outcome = Returned | Blocked | FatalUnlockOfUnlockedMutex

definition Lock :: "string \<Rightarrow> MutexKV \<Rightarrow> (outcome \<times> mutex_ref) \<times> MutexKV" where
  "Lock key m =
     (let (mutex, m') = get key m
      in if mutex \<in> locked m' then ((Blocked, mutex), m')
         else ((Returned, mutex), m'\<lparr>locked := insert mutex (locked m')\<rparr>))"

definition Unlock :: "string \<Rightarrow> MutexKV \<Rightarrow> (outcome \<times> mutex_ref) \<times> MutexKV" where
  "Unlock key m =
     (let (mutex, m') = get key m
      in if mutex \<in> locked m' then ((Returned, mutex), m'\<lparr>locked := locked m' - {mutex}\<rparr>)
         else ((FatalUnlockOfUnlockedMutex, mutex), m'))"

datatype kv_op = OpLock string | OpUnlock string | OpGet string

fun exec :: "kv_op \<Rightarrow> MutexKV \<Rightarrow> (outcome \<times> mutex_ref) \<times> MutexKV" where
  "exec (OpLock key) m = Lock key m"
| "exec (OpUnlock key) m = Unlock key m"
| "exec (OpGet key) m = (let (mutex, m') = get key m in ((Returned, mutex), m'))"

fun run :: "kv_op list \<Rightarrow> MutexKV \<Rightarrow> MutexKV" where
  "run [] m = m"
| "run (op # ops) m = run ops (snd (exec op m))"

text \<open>
  The registry invariant: every stored pointer is an allocated mutex, and no two keys
  share a pointer.
\<close>

definition registry_ok :: "MutexKV \<Rightarrow> bool" where
  "registry_ok m = ((\<forall>k r. store m k = Some r \<longrightarrow> r < allocated m)
                    \<and> (\<forall>k k' r. store m k = Some r \<and> store m k' = Some r \<longrightarrow> k = k'))"

section \<open>Storage container names: \<open>validateArmStorageContainerName\<close>\<close>

text \<open>
  The two patterns of the validator are kept as syntax trees of Go's \<open>regexp\<close> and run by
  a small matcher. \<open>ends re t i\<close> lists the positions at which a match of \<open>re\<close> that starts
  at position \<open>i\<close> of the text \<open>t\<close> can end. \<open>^\<close> is \<open>BeginText\<close> and \<open>$\<close> is \<open>EndText\<close>
  (without the flag \<open>m\<close>, Go's \<open>$\<close> matches at the end of the text only). A character class
  is a list of inclusive byte ranges; the classes and literals used here are ASCII, and
  no byte of a non-ASCII rune lies in an ASCII range, so matching byte by byte agrees
  with Go's matching rune by rune. A repetition cannot usefully run more often than the
  text has positions, which bounds \<open>iterate_ends\<close>.
\<close>

datatype regex =
    BeginText
  | EndText
  | Literal string
  | CharClass "(char \<times> char) list"
  | Concat regex regex
  | Alternate regex regex
  | Plus regex

definition in_class :: "(char \<times> char) list \<Rightarrow> char \<Rightarrow> bool" where
  "in_class ranges c = list_ex (\<lambda>(lo, hi). (of_char lo :: nat) \<le> of_char c \<and> (of_char c :: nat) \<le> of_char hi) ranges"

fun iterate_ends :: "nat \<Rightarrow> (nat \<Rightarrow> nat list) \<Rightarrow> nat \<Rightarrow> nat list" where
  "iterate_ends 0 f i = []"
| "iterate_ends (Suc n) f i = f i @ concat (map (iterate_ends n f) (f i))"

primrec ends :: "regex \<Rightarrow> string \<Rightarrow> nat \<Rightarrow> nat list" where
  "ends BeginText t = (\<lambda>i. if i = 0 then [i] else [])"
| "ends EndText t = (\<lambda>i. if i = length t then [i] else [])"
| "ends (Literal s) t = (\<lambda>i. if take (length s) (drop i t) = s then [i + length s] else [])"
| "ends (CharClass ranges) t = (\<lambda>i. if i < length t \<and> in_class ranges (t ! i) then [Suc i] else [])"
| "ends (Concat a b) t = (\<lambda>i. concat (map (ends b t) (ends a t i)))"
| "ends (Alternate a b) t = (\<lambda>i. ends a t i @ ends b t i)"
| "ends (Plus a) t = (\<lambda>i. iterate_ends (Suc (length t)) (ends a t) i)"

text \<open>\<open>Regexp.MatchString\<close>: the text contains a match, starting anywhere.\<close>

definition MatchString :: "regex \<Rightarrow> string \<Rightarrow> bool" where
  "MatchString re s = list_ex (\<lambda>i. ends re s i \<noteq> []) [0..<Suc (length s)]"

text \<open>\<open>regexp.MustCompile(`^\$root$|^[0-9a-z-]+$`)\<close>\<close>

definition containerNamePattern :: regex where
  "containerNamePattern =
     Alternate (Concat BeginText (Concat (Literal ''$root'') EndText))
               (Concat BeginText
                  (Concat (Plus (CharClass [(CHR ''0'', CHR ''9''), (CHR ''a'', CHR ''z''), (CHR ''-'', CHR ''-'')]))
                          EndText))"

text \<open>\<open>regexp.MustCompile(`^-`)\<close>\<close>

definition leadingHyphenPattern :: regex where
  "leadingHyphenPattern = Concat BeginText (Literal ''-'')"

text \<open>
  The three \<open>fmt.Errorf\<close> values of the validator, each with the attribute name \<open>k\<close> and
  the value it formats.
\<close>

datatype validation_error =
    OnlyLowercaseAlphanumericAndHyphens string string
  | MustBeBetween3And63Characters string string
  | CannotBeginWithHyphen string string

definition validateArmStorageContainerName :: "string \<Rightarrow> string \<Rightarrow> string list \<times> validation_error list" where
  "validateArmStorageContainerName v k =
     (let value = v;
          ws = [];
          errors = [];
          errors = (if \<not> MatchString containerNamePattern value
                    then errors @ [OnlyLowercaseAlphanumericAndHyphens k value] else errors);
          errors = (if length value < 3 \<or> length value > 63
                    then errors @ [MustBeBetween3And63Characters k value] else errors);
          errors = (if MatchString leadingHyphenPattern value
                    then errors @ [CannotBeginWithHyphen k value] else errors)
      in (ws, errors))"

section \<open>Resource operations: state, diagnostics and the Azure clients\<close>

text \<open>
  A resource operation receives the Terraform \<open>schema.ResourceData\<close> (\<open>d\<close>) and the
  provider's \<open>ArmClient\<close> (\<open>meta\<close>) and returns \<open>diag.Diagnostics\<close>. The model threads a
  \<open>session\<close> through an operation: the resource data and the history of the calls made so
  far (client calls with their results, \<open>d.SetId\<close>, locks), in order. An operation ends
  by returning diagnostics or by a panic; either way the session it leaves is part of its
  result. An error value of Go is its message; \<open>nil\<close> is \<open>None\<close>. \<open>diag.FromErr(nil)\<close> is
  the empty list of diagnostics and \<open>diag.Errorf\<close> is a list of one error diagnostic, kept
  as its format and arguments.
\<close>

type_synonym go_error = string

datatype diagnostic = Diagnostic string "string list"

type_synonym Diagnostics = "diagnostic list"

definition diag_FromErr :: "go_error option \<Rightarrow> Diagnostics" where
  "diag_FromErr err = (case err of None \<Rightarrow> [] | Some e \<Rightarrow> [Diagnostic e []])"

definition diag_Errorf :: "string \<Rightarrow> string list \<Rightarrow> Diagnostics" where
  "diag_Errorf format args = [Diagnostic format args]"

datatype attr =
    Str string
  | StrPtr "string option"
  | IntPtr "int option"
  | Bool bool
  | BoolPtr "bool option"
  | StrList "string list"

record ResourceData =
  ResourceData_Id :: string
  attrs :: "string \<rightharpoonup> attr"

type_synonym tags = "(string \<times> string option) list"

record http_Response =
  StatusCode :: int

text \<open>
  \<open>autorest.Response\<close> embeds a \<open>*http.Response\<close>, which is nil when no HTTP response was
  received; reading \<open>resp.StatusCode\<close> through the nil pointer panics.
\<close>

type_synonym autorest_Response = "http_Response option"

definition StatusOK :: int where "StatusOK = 200"
definition StatusNoContent :: int where "StatusNoContent = 204"
definition StatusNotFound :: int where "StatusNotFound = 404"

text \<open>
  Modelled from the spec: \<open>utils.ResponseWasNotFound\<close> is not under src/. The spec
  speaks of a Not-Found response: a response that was received and carries the HTTP
  status 404.
\<close>

definition ResponseWasNotFound :: "autorest_Response \<Rightarrow> bool" where
  "ResponseWasNotFound resp =
     (case resp of None \<Rightarrow> False | Some r \<Rightarrow> StatusCode r = StatusNotFound)"

record ResourceID =
  ResourceGroup :: string
  Path :: "string \<rightharpoonup> string"

text \<open>Reading a \<open>map[string]string\<close> at a missing key gives the empty string.\<close>

definition path :: "ResourceID \<Rightarrow> string \<Rightarrow> string" where
  "path rid k = (case Path rid k of None \<Rightarrow> [] | Some v \<Rightarrow> v)"

subsection \<open>The Azure SDK values the operations read\<close>

text \<open>
  Each SDK struct is a record of the fields the operations read or pass on; an embedded
  pointer to a properties struct is an \<open>option\<close>, and a field read through it when it is nil
  panics. A value returned by a client carries its \<open>autorest.Response\<close>.
\<close>

record RecordSetProperties =
  Metadata :: tags
  TTL :: "int option"
  ARecords :: "ARecord list option"

record RecordSet =
  RecordSet_Response :: autorest_Response
  RecordSet_ID :: "string option"
  RecordSet_Properties :: "RecordSetProperties option"

record ZoneProperties =
  MaxNumberOfRecordSets :: "int option"
  NumberOfRecordSets :: "int option"
  NameServers :: "string list option"

record Zone =
  Zone_Response :: autorest_Response
  Zone_ID :: "string option"
  Zone_Tags :: tags
  Zone_Properties :: "ZoneProperties option"

record Route_result = Route +
  Route_Response :: autorest_Response
  Route_ID :: "string option"

record AvailabilitySetProperties =
  PlatformUpdateDomainCount :: "int option"
  PlatformFaultDomainCount :: "int option"

record AvailabilitySet =
  AvailabilitySet_Response :: autorest_Response
  AvailabilitySet_ID :: "string option"
  AvailabilitySet_Name :: "string option"
  AvailabilitySet_Location :: "string option"
  AvailabilitySet_Sku_Name :: "string option option"
  AvailabilitySet_Tags :: tags
  AvailabilitySet_Properties :: "AvailabilitySetProperties option"

text \<open>
  A value of type \<open>interface{}\<close> that holds decoded JSON: a JSON object (a
  \<open>map[string]interface{}\<close>, kept as its text) or any other JSON value.
\<close>

datatype json = JsonObject string | JsonOther string

record VirtualMachineExtensionProperties =
  Publisher :: "string option"
  Type :: "string option"
  TypeHandlerVersion :: "string option"
  AutoUpgradeMinorVersion :: "bool option"
  Settings :: "json option"
  ProtectedSettings :: "json option"

record VirtualMachineExtension =
  Extension_Response :: autorest_Response
  Extension_ID :: "string option"
  Extension_Name :: "string option"
  Extension_Location :: "string option"
  Extension_Tags :: tags
  Extension_Properties :: "VirtualMachineExtensionProperties option"

record BackendAddressPoolPropertiesFormat =
  BackendIPConfigurations :: "string option list option"
  LoadBalancingRules :: "string option list option"

record BackendAddressPool =
  Pool_ID :: "string option"
  Pool_Name :: "string option"
  Pool_Etag :: "string option"
  Pool_Properties :: "BackendAddressPoolPropertiesFormat option"

record LoadBalancerPropertiesFormat =
  FrontendIPConfigurations :: "string list option"
  BackendAddressPools :: "BackendAddressPool list option"
  LoadBalancer_LoadBalancingRules :: "string list option"
  Probes :: "string list option"
  InboundNatRules :: "string list option"
  ProvisioningState :: "string option"

record LoadBalancer =
  LoadBalancer_Response :: autorest_Response
  LoadBalancer_ID :: "string option"
  LoadBalancer_Name :: "string option"
  LoadBalancer_Location :: "string option"
  LoadBalancer_Etag :: "string option"
  LoadBalancer_Tags :: tags
  LoadBalancer_Properties :: "LoadBalancerPropertiesFormat option"

subsection \<open>History, session and clients\<close>

datatype client = Dns | Zones | Routes | AvailSets | VmExtensions | LoadBalancers

datatype api_method = CreateOrUpdate | WaitForCompletionRef | Get | Delete | WaitForState

text \<open>
  An event of the history: a client call with its string arguments and the error it
  returned; the two calls whose load balancer matters, with that load balancer; a call of
  \<open>d.SetId\<close>; a lock or unlock of the named-mutex registry.
\<close>

datatype event =
    Called client api_method "string list" "go_error option"
  | LoadBalancer_retrieved string "LoadBalancer option" bool "go_error option"
  | LoadBalancer_sent string string LoadBalancer "go_error option"
  | SetId_called string
  | Lock_called string
  | Unlock_called string
  | LockByName_called string string
  | UnlockByName_called string string

record session =
  res_data :: ResourceData
  history :: "event list"

type_synonym result = "(panic + Diagnostics) \<times> session"

definition called :: "event \<Rightarrow> session \<Rightarrow> session" where
  "called e s = s\<lparr>history := history s @ [e]\<rparr>"

text \<open>\<open>defer f()\<close>: \<open>f\<close> runs when the function returns and also when it panics.\<close>

definition deferred :: "(session \<Rightarrow> session) \<Rightarrow> result \<Rightarrow> result" where
  "deferred f r = (fst r, f (snd r))"

definition d_Id :: "session \<Rightarrow> string" where
  "d_Id s = ResourceData_Id (res_data s)"

definition d_SetId :: "string \<Rightarrow> session \<Rightarrow> session" where
  "d_SetId v s = called (SetId_called v) (s\<lparr>res_data := (res_data s)\<lparr>ResourceData_Id := v\<rparr>\<rparr>)"

text \<open>
  \<open>d.Get(k).(string)\<close> for an attribute of schema type string: the stored string, or the
  empty string when none is set. \<open>d.GetOk\<close> also reports whether the value is set and is
  not the zero value.
\<close>

definition d_Get_string :: "string \<Rightarrow> session \<Rightarrow> string" where
  "d_Get_string k s = (case attrs (res_data s) k of Some (Str v) \<Rightarrow> v | _ \<Rightarrow> [])"

definition d_Get_bool :: "string \<Rightarrow> session \<Rightarrow> bool" where
  "d_Get_bool k s = (case attrs (res_data s) k of Some (Bool v) \<Rightarrow> v | _ \<Rightarrow> False)"

definition d_GetOk_string :: "string \<Rightarrow> session \<Rightarrow> string \<times> bool" where
  "d_GetOk_string k s = (let v = d_Get_string k s in (v, v \<noteq> []))"

text \<open>
  Code of this repository that is not under src/, and the functions of the Terraform SDK
  whose result depends on the schema, are parameters of the model. \<open>Set_error k v\<close> is the
  error \<open>d.Set(k, v)\<close> returns (nil when the value fits the attribute's schema type).
  \<open>retrieveLoadBalancerById\<close> asks the service and so depends on the history.
\<close>

record Helpers =
  parseAzureResourceID :: "string \<Rightarrow> go_error + ResourceID"
  azureStackNormalizeLocation :: "string \<Rightarrow> string"
  flattenAndSetTags :: "ResourceData \<Rightarrow> tags \<Rightarrow> ResourceData"
  expandTags :: "ResourceData \<Rightarrow> tags"
  Set_error :: "string \<Rightarrow> attr \<Rightarrow> go_error option"
  routeTableResourceName :: string
  ExpandJsonFromString :: "string \<Rightarrow> go_error + string"
  FlattenJsonToString :: "string \<Rightarrow> go_error + string"
  retrieveLoadBalancerById ::
    "event list \<Rightarrow> string \<Rightarrow> LoadBalancer option \<times> bool \<times> go_error option"
  resourceGroupAndLBNameFromId :: "string \<Rightarrow> go_error + string \<times> string"

definition d_Set :: "Helpers \<Rightarrow> string \<Rightarrow> attr \<Rightarrow> session \<Rightarrow> go_error option \<times> session" where
  "d_Set h k v s =
     (case Set_error h k v of
        Some e \<Rightarrow> (Some e, s)
      | None \<Rightarrow> (None, s\<lparr>res_data := (res_data s)\<lparr>attrs := (attrs (res_data s))(k \<mapsto> v)\<rparr>\<rparr>))"

text \<open>A call \<open>d.Set(k, v)\<close> whose error is dropped.\<close>

definition d_Set_unchecked :: "Helpers \<Rightarrow> string \<Rightarrow> attr \<Rightarrow> session \<Rightarrow> session" where
  "d_Set_unchecked h k v s = snd (d_Set h k v s)"

definition call_flattenAndSetTags :: "Helpers \<Rightarrow> tags \<Rightarrow> session \<Rightarrow> session" where
  "call_flattenAndSetTags h t s = s\<lparr>res_data := flattenAndSetTags h (res_data s) t\<rparr>"

text \<open>
  The Azure service is a parameter as well: every client method is a function of the
  history at the time of the call and of its arguments, so that two calls of one method
  may answer differently. A method returns Go's pair of a result and an error. A method
  that starts a long-running operation returns a future; \<open>WaitForCompletionRef\<close> on it
  polls until the operation completes, fails or times out.
\<close>

record DnsClient =
  RecordSets_Get :: "event list \<Rightarrow> string \<Rightarrow> string \<Rightarrow> string \<Rightarrow> RecordSet \<times> go_error option"
  RecordSets_Delete ::
    "event list \<Rightarrow> string \<Rightarrow> string \<Rightarrow> string \<Rightarrow> autorest_Response \<times> go_error option"

record ZonesClient =
  Zones_Get :: "event list \<Rightarrow> string \<Rightarrow> string \<Rightarrow> Zone \<times> go_error option"

record RoutesClient =
  Routes_CreateOrUpdate ::
    "event list \<Rightarrow> string \<Rightarrow> string \<Rightarrow> string \<Rightarrow> Route \<Rightarrow> go_error option"
  Routes_WaitForCompletionRef :: "event list \<Rightarrow> go_error option"
  Routes_Get :: "event list \<Rightarrow> string \<Rightarrow> string \<Rightarrow> string \<Rightarrow> Route_result \<times> go_error option"

record AvailSetClient =
  AvailabilitySets_Get :: "event list \<Rightarrow> string \<Rightarrow> string \<Rightarrow> AvailabilitySet \<times> go_error option"

record VmExtensionClient =
  Extensions_CreateOrUpdate ::
    "event list \<Rightarrow> string \<Rightarrow> string \<Rightarrow> string \<Rightarrow> VirtualMachineExtension \<Rightarrow> go_error option"
  Extensions_WaitForCompletionRef :: "event list \<Rightarrow> go_error option"
  Extensions_Get ::
    "event list \<Rightarrow> string \<Rightarrow> string \<Rightarrow> string \<Rightarrow> VirtualMachineExtension \<times> go_error option"

record LoadBalancerClient =
  LoadBalancers_CreateOrUpdate ::
    "event list \<Rightarrow> string \<Rightarrow> string \<Rightarrow> LoadBalancer \<Rightarrow> go_error option"
  LoadBalancers_WaitForCompletionRef :: "event list \<Rightarrow> go_error option"
  LoadBalancers_Get :: "event list \<Rightarrow> string \<Rightarrow> string \<Rightarrow> LoadBalancer \<times> go_error option"
  LoadBalancers_WaitForState :: "event list \<Rightarrow> go_error option"

record ArmClient =
  dnsClient :: DnsClient
  zonesClient :: ZonesClient
  routesClient :: RoutesClient
  availSetClient :: AvailSetClient
  vmExtensionClient :: VmExtensionClient
  loadBalancerClient :: LoadBalancerClient

type_synonym operation = "ArmClient \<Rightarrow> Helpers \<Rightarrow> session \<Rightarrow> result"

subsection \<open>Client calls, recorded in the history\<close>

definition returns :: "Diagnostics \<Rightarrow> session \<Rightarrow> result" where
  "returns diags s = (Inr diags, s)"

definition panics :: "panic \<Rightarrow> session \<Rightarrow> result" where
  "panics p s = (Inl p, s)"

definition call_RecordSets_Get ::
  "ArmClient \<Rightarrow> string \<Rightarrow> string \<Rightarrow> string \<Rightarrow> session \<Rightarrow> (RecordSet \<times> go_error option) \<times> session" where
  "call_RecordSets_Get meta resGroup zoneName name s =
     (let r = RecordSets_Get (dnsClient meta) (history s) resGroup zoneName name
      in (r, called (Called Dns Get [resGroup, zoneName, name] (snd r)) s))"

definition call_RecordSets_Delete ::
  "ArmClient \<Rightarrow> string \<Rightarrow> string \<Rightarrow> string \<Rightarrow> session
     \<Rightarrow> (autorest_Response \<times> go_error option) \<times> session" where
  "call_RecordSets_Delete meta resGroup zoneName name s =
     (let r = RecordSets_Delete (dnsClient meta) (history s) resGroup zoneName name
      in (r, called (Called Dns Delete [resGroup, zoneName, name] (snd r)) s))"

definition call_Zones_Get ::
  "ArmClient \<Rightarrow> string \<Rightarrow> string \<Rightarrow> session \<Rightarrow> (Zone \<times> go_error option) \<times> session" where
  "call_Zones_Get meta resGroup name s =
     (let r = Zones_Get (zonesClient meta) (history s) resGroup name
      in (r, called (Called Zones Get [resGroup, name] (snd r)) s))"

definition call_Routes_CreateOrUpdate ::
  "ArmClient \<Rightarrow> string \<Rightarrow> string \<Rightarrow> string \<Rightarrow> Route \<Rightarrow> session \<Rightarrow> go_error option \<times> session" where
  "call_Routes_CreateOrUpdate meta resGroup rtName name route s =
     (let err = Routes_CreateOrUpdate (routesClient meta) (history s) resGroup rtName name route
      in (err, called (Called Routes CreateOrUpdate [resGroup, rtName, name] err) s))"

definition call_Routes_WaitForCompletionRef :: "ArmClient \<Rightarrow> session \<Rightarrow> go_error option \<times> session" where
  "call_Routes_WaitForCompletionRef meta s =
     (let err = Routes_WaitForCompletionRef (routesClient meta) (history s)
      in (err, called (Called Routes WaitForCompletionRef [] err) s))"

definition call_Routes_Get ::
  "ArmClient \<Rightarrow> string \<Rightarrow> string \<Rightarrow> string \<Rightarrow> session \<Rightarrow> (Route_result \<times> go_error option) \<times> session" where
  "call_Routes_Get meta resGroup rtName name s =
     (let r = Routes_Get (routesClient meta) (history s) resGroup rtName name
      in (r, called (Called Routes Get [resGroup, rtName, name] (snd r)) s))"

definition call_AvailabilitySets_Get ::
  "ArmClient \<Rightarrow> string \<Rightarrow> string \<Rightarrow> session \<Rightarrow> (AvailabilitySet \<times> go_error option) \<times> session" where
  "call_AvailabilitySets_Get meta resGroup name s =
     (let r = AvailabilitySets_Get (availSetClient meta) (history s) resGroup name
      in (r, called (Called AvailSets Get [resGroup, name] (snd r)) s))"

definition call_Extensions_CreateOrUpdate ::
  "ArmClient \<Rightarrow> string \<Rightarrow> string \<Rightarrow> string \<Rightarrow> VirtualMachineExtension \<Rightarrow> session
     \<Rightarrow> go_error option \<times> session" where
  "call_Extensions_CreateOrUpdate meta resGroup vmName name extension s =
     (let err = Extensions_CreateOrUpdate (vmExtensionClient meta) (history s) resGroup vmName name extension
      in (err, called (Called VmExtensions CreateOrUpdate [resGroup, vmName, name] err) s))"

definition call_Extensions_WaitForCompletionRef :: "ArmClient \<Rightarrow> session \<Rightarrow> go_error option \<times> session" where
  "call_Extensions_WaitForCompletionRef meta s =
     (let err = Extensions_WaitForCompletionRef (vmExtensionClient meta) (history s)
      in (err, called (Called VmExtensions WaitForCompletionRef [] err) s))"

definition call_Extensions_Get ::
  "ArmClient \<Rightarrow> string \<Rightarrow> string \<Rightarrow> string \<Rightarrow> session
     \<Rightarrow> (VirtualMachineExtension \<times> go_error option) \<times> session" where
  "call_Extensions_Get meta resGroup vmName name s =
     (let r = Extensions_Get (vmExtensionClient meta) (history s) resGroup vmName name
      in (r, called (Called VmExtensions Get [resGroup, vmName, name] (snd r)) s))"

definition call_retrieveLoadBalancerById ::
  "Helpers \<Rightarrow> string \<Rightarrow> session \<Rightarrow> (LoadBalancer option \<times> bool \<times> go_error option) \<times> session" where
  "call_retrieveLoadBalancerById h loadBalancerID s =
     (let r = retrieveLoadBalancerById h (history s) loadBalancerID
      in (r, called (LoadBalancer_retrieved loadBalancerID (fst r) (fst (snd r)) (snd (snd r))) s))"

definition call_LoadBalancers_CreateOrUpdate ::
  "ArmClient \<Rightarrow> string \<Rightarrow> string \<Rightarrow> LoadBalancer \<Rightarrow> session \<Rightarrow> go_error option \<times> session" where
  "call_LoadBalancers_CreateOrUpdate meta resGroup loadBalancerName loadBalancer s =
     (let err = LoadBalancers_CreateOrUpdate (loadBalancerClient meta) (history s) resGroup
                  loadBalancerName loadBalancer
      in (err, called (LoadBalancer_sent resGroup loadBalancerName loadBalancer err) s))"

definition call_LoadBalancers_WaitForCompletionRef ::
  "ArmClient \<Rightarrow> session \<Rightarrow> go_error option \<times> session" where
  "call_LoadBalancers_WaitForCompletionRef meta s =
     (let err = LoadBalancers_WaitForCompletionRef (loadBalancerClient meta) (history s)
      in (err, called (Called LoadBalancers WaitForCompletionRef [] err) s))"

definition call_LoadBalancers_Get ::
  "ArmClient \<Rightarrow> string \<Rightarrow> string \<Rightarrow> session \<Rightarrow> (LoadBalancer \<times> go_error option) \<times> session" where
  "call_LoadBalancers_Get meta resGroup loadBalancerName s =
     (let r = LoadBalancers_Get (loadBalancerClient meta) (history s) resGroup loadBalancerName
      in (r, called (Called LoadBalancers Get [resGroup, loadBalancerName] (snd r)) s))"

definition call_LoadBalancers_WaitForState :: "ArmClient \<Rightarrow> session \<Rightarrow> go_error option \<times> session" where
  "call_LoadBalancers_WaitForState meta s =
     (let err = LoadBalancers_WaitForState (loadBalancerClient meta) (history s)
      in (err, called (Called LoadBalancers WaitForState [] err) s))"

section \<open>DNS A record: Read and Delete\<close>

definition resourceArmDnsARecordRead :: operation where
  "resourceArmDnsARecordRead meta h s =
     (case parseAzureResourceID h (d_Id s) of
        Inl err \<Rightarrow> returns (diag_FromErr (Some err)) s
      | Inr rid \<Rightarrow>
          (let resGroup = ResourceGroup rid;
               name = path rid ''A'';
               zoneName = path rid ''dnszones'';
               ((resp, err), s) = call_RecordSets_Get meta resGroup zoneName name s
           in case err of
                Some e \<Rightarrow>
                  if ResponseWasNotFound (RecordSet_Response resp)
                  then returns [] (d_SetId [] s)
                  else returns (diag_Errorf ''Error reading DNS A record %s: %+v'' [name, e]) s
              | None \<Rightarrow>
                  (let s = d_Set_unchecked h ''name'' (Str name) s;
                       s = d_Set_unchecked h ''resource_group_name'' (Str resGroup) s;
                       s = d_Set_unchecked h ''zone_name'' (Str zoneName) s
                   in case deref (RecordSet_Properties resp) of
                        Inl p \<Rightarrow> panics p s
                      | Inr props \<Rightarrow>
                          (let s = d_Set_unchecked h ''ttl'' (IntPtr (TTL props)) s
                           in case flattenAzureStackDnsARecords (ARecords props) of
                                Inl p \<Rightarrow> panics p s
                              | Inr records \<Rightarrow>
                                  (case d_Set h ''records'' (StrList records) s of
                                     (Some e, s) \<Rightarrow> returns (diag_FromErr (Some e)) s
                                   | (None, s) \<Rightarrow>
                                       returns [] (call_flattenAndSetTags h (Metadata props) s))))))"

text \<open>
  \<open>resourceArmDnsARecordDelete\<close> decides on \<open>resp.StatusCode != http.StatusOK\<close>; the error
  returned by the client is only formatted into the message (\<open>%+v\<close> of a nil error prints
  \<open><nil>\<close>).
\<close>

definition resourceArmDnsARecordDelete :: operation where
  "resourceArmDnsARecordDelete meta h s =
     (case parseAzureResourceID h (d_Id s) of
        Inl err \<Rightarrow> returns (diag_FromErr (Some err)) s
      | Inr rid \<Rightarrow>
          (let resGroup = ResourceGroup rid;
               name = path rid ''A'';
               zoneName = path rid ''dnszones'';
               ((resp, error), s) = call_RecordSets_Delete meta resGroup zoneName name s
           in case deref resp of
                Inl p \<Rightarrow> panics p s
              | Inr r \<Rightarrow>
                  if StatusCode r \<noteq> StatusOK
                  then returns (diag_Errorf ''Error deleting DNS A Record %s: %+v''
                                  [name, case error of None \<Rightarrow> ''<nil>'' | Some e \<Rightarrow> e]) s
                  else returns [] s))"

section \<open>DNS zone: Read\<close>

definition resourceArmDnsZoneRead :: operation where
  "resourceArmDnsZoneRead meta h s =
     (case parseAzureResourceID h (d_Id s) of
        Inl err \<Rightarrow> returns (diag_FromErr (Some err)) s
      | Inr rid \<Rightarrow>
          (let resGroup = ResourceGroup rid;
               name = path rid ''dnszones'';
               ((resp, err), s) = call_Zones_Get meta resGroup name s
           in case err of
                Some e \<Rightarrow>
                  if ResponseWasNotFound (Zone_Response resp)
                  then returns [] (d_SetId [] s)
                  else returns (diag_Errorf ''Error reading DNS zone %s (resource group %s): %+v''
                                  [name, resGroup, e]) s
              | None \<Rightarrow>
                  (let s = d_Set_unchecked h ''name'' (Str name) s;
                       s = d_Set_unchecked h ''resource_group_name'' (Str resGroup) s
                   in case deref (Zone_Properties resp) of
                        Inl p \<Rightarrow> panics p s
                      | Inr props \<Rightarrow>
                          (let s = d_Set_unchecked h ''number_of_record_sets''
                                     (IntPtr (NumberOfRecordSets props)) s;
                               s = d_Set_unchecked h ''max_number_of_record_sets''
                                     (IntPtr (MaxNumberOfRecordSets props)) s
                           in case NameServers props of
                                None \<Rightarrow> returns [] (call_flattenAndSetTags h (Zone_Tags resp) s)
                              | Some nameServers \<Rightarrow>
                                  (case d_Set h ''name_servers'' (StrList nameServers) s of
                                     (Some e, s) \<Rightarrow>
                                       returns (diag_Errorf ''Error setting `name_servers`: %+v'' [e]) s
                                   | (None, s) \<Rightarrow>
                                       returns [] (call_flattenAndSetTags h (Zone_Tags resp) s))))))"

section \<open>Route: Read\<close>

definition resourceArmRouteRead :: operation where
  "resourceArmRouteRead meta h s =
     (case parseAzureResourceID h (d_Id s) of
        Inl err \<Rightarrow> returns (diag_FromErr (Some err)) s
      | Inr rid \<Rightarrow>
          (let resGroup = ResourceGroup rid;
               rtName = path rid ''routeTables'';
               routeName = path rid ''routes'';
               ((resp, err), s) = call_Routes_Get meta resGroup rtName routeName s
           in case err of
                Some e \<Rightarrow>
                  if ResponseWasNotFound (Route_Response resp)
                  then returns [] (d_SetId [] s)
                  else returns (diag_Errorf ''Error making Read request on Azure Route %q: %+v''
                                  [routeName, e]) s
              | None \<Rightarrow>
                  (let s = d_Set_unchecked h ''name'' (Str routeName) s;
                       s = d_Set_unchecked h ''resource_group_name'' (Str resGroup) s;
                       s = d_Set_unchecked h ''route_table_name'' (Str rtName) s
                   in case Route_Properties resp of
                        None \<Rightarrow> returns [] s
                      | Some props \<Rightarrow>
                          (let s = d_Set_unchecked h ''address_prefix'' (StrPtr (AddressPrefix props)) s;
                               s = d_Set_unchecked h ''next_hop_type'' (Str (NextHopType props)) s
                           in case NextHopIPAddress props of
                                None \<Rightarrow> returns [] s
                              | Some ip \<Rightarrow>
                                  returns [] (d_Set_unchecked h ''next_hop_in_ip_address''
                                                (StrPtr (NextHopIPAddress props)) s)))))"

section \<open>Availability set: Read\<close>

text \<open>\<open>strings.EqualFold(*resp.Sku.Name, "Aligned")\<close>, for ASCII letters.\<close>

definition ascii_lower :: "char \<Rightarrow> char" where
  "ascii_lower c = (if 65 \<le> (of_char c :: nat) \<and> (of_char c :: nat) \<le> 90
                    then char_of (of_char c + (32 :: nat)) else c)"

definition EqualFold :: "string \<Rightarrow> string \<Rightarrow> bool" where
  "EqualFold a b = (map ascii_lower a = map ascii_lower b)"

definition resourceArmAvailabilitySetRead :: operation where
  "resourceArmAvailabilitySetRead meta h s =
     (case parseAzureResourceID h (d_Id s) of
        Inl err \<Rightarrow> returns (diag_FromErr (Some err)) s
      | Inr rid \<Rightarrow>
          (let resGroup = ResourceGroup rid;
               name = path rid ''availabilitySets'';
               ((resp, err), s) = call_AvailabilitySets_Get meta resGroup name s
           in case err of
                Some e \<Rightarrow>
                  if ResponseWasNotFound (AvailabilitySet_Response resp)
                  then returns [] (d_SetId [] s)
                  else returns (diag_Errorf
                         ''Error making Read request on Azure Availability Set %q (Resource Group %q): %+v''
                         [name, resGroup, e]) s
              | None \<Rightarrow>
                  (case deref (AvailabilitySet_Properties resp) of
                     Inl p \<Rightarrow> panics p s
                   | Inr availSet \<Rightarrow>
                       (let s = d_Set_unchecked h ''name'' (StrPtr (AvailabilitySet_Name resp)) s;
                            s = d_Set_unchecked h ''resource_group_name'' (Str resGroup) s;
                            s = (case AvailabilitySet_Location resp of
                                   None \<Rightarrow> s
                                 | Some location \<Rightarrow>
                                     d_Set_unchecked h ''location''
                                       (Str (azureStackNormalizeLocation h location)) s);
                            s = d_Set_unchecked h ''platform_update_domain_count''
                                  (IntPtr (PlatformUpdateDomainCount availSet)) s;
                            s = d_Set_unchecked h ''platform_fault_domain_count''
                                  (IntPtr (PlatformFaultDomainCount availSet)) s;
                            s = (case AvailabilitySet_Sku_Name resp of
                                   Some (Some skuName) \<Rightarrow>
                                     d_Set_unchecked h ''managed'' (Bool (EqualFold skuName ''Aligned'')) s
                                 | _ \<Rightarrow> s)
                        in returns [] (call_flattenAndSetTags h (AvailabilitySet_Tags resp) s)))))"

section \<open>Route: Create and Update\<close>

text \<open>
  \<open>azureStackLockByName\<close> and \<open>azureStackUnlockByName\<close> are not under src/; a call is
  recorded in the history with its two arguments.
\<close>

definition resourceArmRouteCreateUpdate :: operation where
  "resourceArmRouteCreateUpdate meta h s =
     (let name = d_Get_string ''name'' s;
          rtName = d_Get_string ''route_table_name'' s;
          resGroup = d_Get_string ''resource_group_name'' s;
          addressPrefix = d_Get_string ''address_prefix'' s;
          nextHopType = d_Get_string ''next_hop_type'' s;
          s = called (LockByName_called rtName (routeTableResourceName h)) s
      in deferred (called (UnlockByName_called rtName (routeTableResourceName h)))
           (let props = \<lparr>AddressPrefix = Some addressPrefix, NextHopType = nextHopType,
                          NextHopIPAddress = None\<rparr>;
                props = (case d_GetOk_string ''next_hop_in_ip_address'' s of
                           (v, True) \<Rightarrow> props\<lparr>NextHopIPAddress := Some v\<rparr>
                         | (v, False) \<Rightarrow> props);
                route = \<lparr>Route_Name = Some name, Route_Properties = Some props\<rparr>;
                (err, s) = call_Routes_CreateOrUpdate meta resGroup rtName name route s
            in case err of
                 Some e \<Rightarrow>
                   returns (diag_Errorf
                     ''Error Creating/Updating Route %q (Route Table %q / Resource Group %q): %+v''
                     [name, rtName, resGroup, e]) s
               | None \<Rightarrow>
                   (let (err, s) = call_Routes_WaitForCompletionRef meta s
                    in case err of
                         Some e \<Rightarrow>
                           returns (diag_Errorf
                             ''Error waiting for completion for Route %q (Route Table %q / Resource Group %q): %+v''
                             [name, rtName, resGroup, e]) s
                       | None \<Rightarrow>
                           (let ((read, err), s) = call_Routes_Get meta resGroup rtName name s
                            in case err of
                                 Some e \<Rightarrow> returns (diag_FromErr (Some e)) s
                               | None \<Rightarrow>
                                   (case Route_ID read of
                                      None \<Rightarrow>
                                        returns (diag_Errorf
                                          ''Cannot read Route %q/%q (resource group %q) ID''
                                          [rtName, name, resGroup]) s
                                    | Some i \<Rightarrow> resourceArmRouteRead meta h (d_SetId i s))))))"

section \<open>Virtual machine extension: Create and Read\<close>

definition resourceArmVirtualMachineExtensionsRead :: operation where
  "resourceArmVirtualMachineExtensionsRead meta h s =
     (case parseAzureResourceID h (d_Id s) of
        Inl err \<Rightarrow> returns (diag_FromErr (Some err)) s
      | Inr rid \<Rightarrow>
          (let resGroup = ResourceGroup rid;
               vmName = path rid ''virtualMachines'';
               name = path rid ''extensions'';
               ((resp, err), s) = call_Extensions_Get meta resGroup vmName name s
           in case err of
                Some e \<Rightarrow>
                  if ResponseWasNotFound (Extension_Response resp)
                  then returns [] (d_SetId [] s)
                  else returns (diag_Errorf
                         ''Error making Read request on Virtual Machine Extension %s: %s'' [name, e]) s
              | None \<Rightarrow>
                  (let s = d_Set_unchecked h ''name'' (StrPtr (Extension_Name resp)) s;
                       s = (case Extension_Location resp of
                              None \<Rightarrow> s
                            | Some location \<Rightarrow>
                                d_Set_unchecked h ''location''
                                  (Str (azureStackNormalizeLocation h location)) s);
                       s = d_Set_unchecked h ''virtual_machine_name'' (Str vmName) s;
                       s = d_Set_unchecked h ''resource_group_name'' (Str resGroup) s
                   in case Extension_Properties resp of
                        None \<Rightarrow> returns [] (call_flattenAndSetTags h (Extension_Tags resp) s)
                      | Some props \<Rightarrow>
                          (let s = d_Set_unchecked h ''publisher'' (StrPtr (Publisher props)) s;
                               s = d_Set_unchecked h ''type'' (StrPtr (Type props)) s;
                               s = d_Set_unchecked h ''type_handler_version''
                                     (StrPtr (TypeHandlerVersion props)) s;
                               s = d_Set_unchecked h ''auto_upgrade_minor_version''
                                     (BoolPtr (AutoUpgradeMinorVersion props)) s
                           in case Settings props of
                                None \<Rightarrow> returns [] (call_flattenAndSetTags h (Extension_Tags resp) s)
                              | Some (JsonOther v) \<Rightarrow> panics InterfaceConversion s
                              | Some (JsonObject settingsVal) \<Rightarrow>
                                  (case FlattenJsonToString h settingsVal of
                                     Inl e \<Rightarrow>
                                       returns (diag_Errorf
                                         ''unable to parse settings from response: %s'' [e]) s
                                   | Inr settingsJson \<Rightarrow>
                                       returns []
                                         (call_flattenAndSetTags h (Extension_Tags resp)
                                            (d_Set_unchecked h ''settings'' (Str settingsJson) s)))))))"

definition resourceArmVirtualMachineExtensionsCreate :: operation where
  "resourceArmVirtualMachineExtensionsCreate meta h s =
     (let name = d_Get_string ''name'' s;
          location = azureStackNormalizeLocation h (d_Get_string ''location'' s);
          vmName = d_Get_string ''virtual_machine_name'' s;
          resGroup = d_Get_string ''resource_group_name'' s;
          publisher = d_Get_string ''publisher'' s;
          extensionType = d_Get_string ''type'' s;
          typeHandlerVersion = d_Get_string ''type_handler_version'' s;
          autoUpgradeMinor = d_Get_bool ''auto_upgrade_minor_version'' s;
          props = \<lparr>Publisher = Some publisher, Type = Some extensionType,
                     TypeHandlerVersion = Some typeHandlerVersion,
                     AutoUpgradeMinorVersion = Some autoUpgradeMinor,
                     Settings = None, ProtectedSettings = None\<rparr>;
          settingsString = d_Get_string ''settings'' s
      in case (if settingsString \<noteq> []
               then map_sum (\<lambda>e. e) (\<lambda>settings. props\<lparr>Settings := Some (JsonObject settings)\<rparr>)
                      (ExpandJsonFromString h settingsString)
               else Inr props) of
           Inl err \<Rightarrow> returns (diag_Errorf ''unable to parse settings: %s'' [err]) s
         | Inr props \<Rightarrow>
             (let protectedSettingsString = d_Get_string ''protected_settings'' s
              in case (if protectedSettingsString \<noteq> []
                       then map_sum (\<lambda>e. e)
                              (\<lambda>protectedSettings.
                                  props\<lparr>ProtectedSettings := Some (JsonObject protectedSettings)\<rparr>)
                              (ExpandJsonFromString h protectedSettingsString)
                       else Inr props) of
                   Inl err \<Rightarrow> returns (diag_Errorf ''unable to parse protected_settings: %s'' [err]) s
                 | Inr props \<Rightarrow>
                     (let extension = \<lparr>Extension_Response = None, Extension_ID = None,
                                         Extension_Name = None, Extension_Location = Some location,
                                         Extension_Tags = expandTags h (res_data s),
                                         Extension_Properties = Some props\<rparr>;
                          (err, s) = call_Extensions_CreateOrUpdate meta resGroup vmName name extension s
                      in case err of
                           Some e \<Rightarrow> returns (diag_FromErr (Some e)) s
                         | None \<Rightarrow>
                             (let (err, s) = call_Extensions_WaitForCompletionRef meta s
                              in case err of
                                   Some e \<Rightarrow> returns (diag_FromErr (Some e)) s
                                 | None \<Rightarrow>
                                     (let ((read, err), s) = call_Extensions_Get meta resGroup vmName name s
                                      in case err of
                                           Some e \<Rightarrow> returns (diag_FromErr (Some e)) s
                                         | None \<Rightarrow>
                                             (case Extension_ID read of
                                                None \<Rightarrow>
                                                  returns (diag_Errorf
                                                    ''Cannot read  Virtual Machine Extension %s (resource group %s) ID''
                                                    [name, resGroup]) s
                                              | Some i \<Rightarrow>
                                                  resourceArmVirtualMachineExtensionsRead meta h
                                                    (d_SetId i s)))))))"

section \<open>Load balancer backend address pool: Create, Read and Delete\<close>

text \<open>
  Modelled from the spec: \<open>findLoadBalancerBackEndAddressPoolByName\<close> is not under src/.
  It finds, in the load balancer's list of backend address pools, the pool with the
  given name and the index at which it stands: the first pool of that name, with
  \<open>(nil, -1, false)\<close> when the load balancer, its properties or its pool list is nil or no
  pool has the name.
\<close>

fun findPool_loop ::
  "BackendAddressPool list \<Rightarrow> string \<Rightarrow> int \<Rightarrow> BackendAddressPool option \<times> int \<times> bool" where
  "findPool_loop [] name i = (None, - 1, False)"
| "findPool_loop (apc # rest) name i =
     (if Pool_Name apc = Some name then (Some apc, i, True) else findPool_loop rest name (i + 1))"

definition findLoadBalancerBackEndAddressPoolByName ::
  "LoadBalancer option \<Rightarrow> string \<Rightarrow> BackendAddressPool option \<times> int \<times> bool" where
  "findLoadBalancerBackEndAddressPoolByName lb name =
     (case lb of
        None \<Rightarrow> (None, - 1, False)
      | Some l \<Rightarrow>
          (case LoadBalancer_Properties l of
             None \<Rightarrow> (None, - 1, False)
           | Some props \<Rightarrow>
               (case BackendAddressPools props of
                  None \<Rightarrow> (None, - 1, False)
                | Some pools \<Rightarrow> findPool_loop pools name 0)))"

text \<open>
  \<open>append(xs[:i], xs[i+1:]...)\<close> on a slice of length \<open>n\<close>: the slice expressions panic
  unless \<open>0 \<le> i\<close> and \<open>i + 1 \<le> n\<close>; the result is \<open>xs\<close> without its element at \<open>i\<close>.
\<close>

definition remove_at :: "int \<Rightarrow> 'a list \<Rightarrow> panic + 'a list" where
  "remove_at i xs =
     (if i < 0 \<or> int (length xs) < i + 1 then Inl SliceBoundsOutOfRange
      else Inr (take (nat i) xs @ drop (nat i + 1) xs))"

definition expandAzureRmLoadBalancerBackendAddressPools :: "session \<Rightarrow> BackendAddressPool" where
  "expandAzureRmLoadBalancerBackendAddressPools s =
     \<lparr>Pool_ID = None, Pool_Name = Some (d_Get_string ''name'' s), Pool_Etag = None,
      Pool_Properties = None\<rparr>"

text \<open>The three pointers read by \<open>*loadBalancer.LoadBalancerPropertiesFormat.BackendAddressPools\<close>.\<close>

definition deref_pools ::
  "LoadBalancer option \<Rightarrow> panic + LoadBalancer \<times> LoadBalancerPropertiesFormat \<times> BackendAddressPool list" where
  "deref_pools loadBalancer =
     (case deref loadBalancer of
        Inl p \<Rightarrow> Inl p
      | Inr lb \<Rightarrow>
          (case deref (LoadBalancer_Properties lb) of
             Inl p \<Rightarrow> Inl p
           | Inr props \<Rightarrow>
               (case deref (BackendAddressPools props) of
                  Inl p \<Rightarrow> Inl p
                | Inr pools \<Rightarrow> Inr (lb, props, pools))))"

text \<open>
  The loop of Create over the pools read back:
  \<open>if *BackendAddressPool.Name == d.Get("name").(string) { poolId = *BackendAddressPool.ID }\<close>.
\<close>

fun poolId_loop :: "BackendAddressPool list \<Rightarrow> string \<Rightarrow> string \<Rightarrow> panic + string" where
  "poolId_loop [] name poolId = Inr poolId"
| "poolId_loop (pool # rest) name poolId =
     (case deref (Pool_Name pool) of
        Inl p \<Rightarrow> Inl p
      | Inr n \<Rightarrow>
          if n = name
          then (case deref (Pool_ID pool) of
                  Inl p \<Rightarrow> Inl p
                | Inr i \<Rightarrow> poolId_loop rest name i)
          else poolId_loop rest name poolId)"

text \<open>The two loops of Read: \<open>append(ids, *x.ID)\<close> for each element.\<close>

fun ids_loop :: "string option list \<Rightarrow> string list \<Rightarrow> panic + string list" where
  "ids_loop [] acc = Inr acc"
| "ids_loop (x # rest) acc =
     (case deref x of Inl p \<Rightarrow> Inl p | Inr i \<Rightarrow> ids_loop rest (acc @ [i]))"

definition resourceArmLoadBalancerBackendAddressPoolRead :: operation where
  "resourceArmLoadBalancerBackendAddressPoolRead meta h s =
     (case parseAzureResourceID h (d_Id s) of
        Inl err \<Rightarrow> returns (diag_FromErr (Some err)) s
      | Inr rid \<Rightarrow>
          (let name = path rid ''backendAddressPools'';
               ((loadBalancer, exists, err), s) =
                  call_retrieveLoadBalancerById h (d_Get_string ''loadbalancer_id'' s) s
           in case err of
                Some e \<Rightarrow> returns (diag_Errorf ''Error retrieving Load Balancer by ID: %+v'' [e]) s
              | None \<Rightarrow>
                  if \<not> exists then returns [] (d_SetId [] s)
                  else
                    (let (config, _, exists) = findLoadBalancerBackEndAddressPoolByName loadBalancer name
                     in if \<not> exists then returns [] (d_SetId [] s)
                        else
                          (case deref config of
                             Inl p \<Rightarrow> panics p s
                           | Inr config \<Rightarrow>
                               (let s = d_Set_unchecked h ''name'' (StrPtr (Pool_Name config)) s;
                                    s = d_Set_unchecked h ''resource_group_name''
                                          (Str (ResourceGroup rid)) s
                                in case (case Pool_Properties config of
                                           None \<Rightarrow> Inr ([], [])
                                         | Some props \<Rightarrow>
                                             (case (case BackendIPConfigurations props of
                                                      None \<Rightarrow> Inr []
                                                    | Some configs \<Rightarrow> ids_loop configs []) of
                                                Inl p \<Rightarrow> Inl p
                                              | Inr backendIpConfigurations \<Rightarrow>
                                                  (case (case LoadBalancingRules props of
                                                           None \<Rightarrow> Inr []
                                                         | Some rules \<Rightarrow> ids_loop rules []) of
                                                     Inl p \<Rightarrow> Inl p
                                                   | Inr loadBalancingRules \<Rightarrow>
                                                       Inr (backendIpConfigurations, loadBalancingRules)))) of
                                     Inl p \<Rightarrow> panics p s
                                   | Inr (backendIpConfigurations, loadBalancingRules) \<Rightarrow>
                                       (let s = d_Set_unchecked h ''backend_ip_configurations''
                                                  (StrList backendIpConfigurations) s;
                                            s = d_Set_unchecked h ''load_balancing_rules''
                                                  (StrList loadBalancingRules) s
                                        in returns [] s))))))"

text \<open>
  Create, from \<open>future.WaitForCompletionRef\<close> on (the part of the function after the update
  of the load balancer was sent and accepted).
\<close>

definition resourceArmLoadBalancerBackendAddressPoolCreate_afterSend ::
  "ArmClient \<Rightarrow> Helpers \<Rightarrow> string \<Rightarrow> string \<Rightarrow> string \<Rightarrow> session \<Rightarrow> result" where
  "resourceArmLoadBalancerBackendAddressPoolCreate_afterSend meta h name resGroup loadBalancerName s =
     (let (err, s) = call_LoadBalancers_WaitForCompletionRef meta s
      in case err of
           Some e \<Rightarrow>
             returns (diag_Errorf
               ''Error Creating/Updating LoadBalancer %q (Resource Group %q): %+v''
               [loadBalancerName, resGroup, e]) s
         | None \<Rightarrow>
             (let ((read, err), s) = call_LoadBalancers_Get meta resGroup loadBalancerName s
              in case err of
                   Some e \<Rightarrow>
                     returns (diag_Errorf
                       ''Error retrieving Load Balancer %q (Resource Group %q): %+v''
                       [loadBalancerName, resGroup, e]) s
                 | None \<Rightarrow>
                     (case LoadBalancer_ID read of
                        None \<Rightarrow>
                          returns (diag_Errorf ''Cannot read LoadBalancer %q (Resource Group %q) ID''
                                     [loadBalancerName, resGroup]) s
                      | Some _ \<Rightarrow>
                          (case LoadBalancer_Properties read of
                             None \<Rightarrow>
                               returns (diag_Errorf ''Error creating LoadBalancer (%q Resource Group %q)''
                                          [loadBalancerName, resGroup]) s
                           | Some readProps \<Rightarrow>
                               (case deref (BackendAddressPools readProps) of
                                  Inl p \<Rightarrow> panics p s
                                | Inr readPools \<Rightarrow>
                                    (case poolId_loop readPools name [] of
                                       Inl p \<Rightarrow> panics p s
                                     | Inr poolId \<Rightarrow>
                                         if poolId = []
                                         then returns (diag_Errorf
                                                ''Cannot find created LoadBalancer Backend Address Pool ID %q''
                                                [poolId]) s
                                         else
                                           (let s = d_SetId poolId s;
                                                (err, s) = call_LoadBalancers_WaitForState meta s
                                            in case err of
                                                 Some e \<Rightarrow>
                                                   returns (diag_Errorf
                                                     ''Error waiting for LoadBalancer (%q Resource Group %q) to become available: %+v''
                                                     [loadBalancerName, resGroup, e]) s
                                               | None \<Rightarrow>
                                                   resourceArmLoadBalancerBackendAddressPoolRead
                                                     meta h s)))))))"

definition resourceArmLoadBalancerBackendAddressPoolCreate :: operation where
  "resourceArmLoadBalancerBackendAddressPoolCreate meta h s =
     (let loadBalancerID = d_Get_string ''loadbalancer_id'' s;
          s = called (Lock_called loadBalancerID) s
      in deferred (called (Unlock_called loadBalancerID))
           (let ((loadBalancer, exists, err), s) = call_retrieveLoadBalancerById h loadBalancerID s
            in case err of
                 Some e \<Rightarrow> returns (diag_FromErr (Some e)) s
               | None \<Rightarrow>
                   if \<not> exists then returns [] (d_SetId [] s)
                   else
                     (case deref_pools loadBalancer of
                        Inl p \<Rightarrow> panics p s
                      | Inr (lb, props, pools) \<Rightarrow>
                          (let name = d_Get_string ''name'' s;
                               backendAddressPools =
                                 pools @ [expandAzureRmLoadBalancerBackendAddressPools s];
                               (existingPool, existingPoolIndex, exists) =
                                 findLoadBalancerBackEndAddressPoolByName loadBalancer name
                           in case (if exists
                                    then (case deref existingPool of
                                            Inl p \<Rightarrow> Inl p
                                          | Inr pool \<Rightarrow>
                                              (case deref (Pool_Name pool) of
                                                 Inl p \<Rightarrow> Inl p
                                               | Inr n \<Rightarrow>
                                                   if name = n
                                                   then remove_at existingPoolIndex backendAddressPools
                                                   else Inr backendAddressPools))
                                    else Inr backendAddressPools) of
                                Inl p \<Rightarrow> panics p s
                              | Inr backendAddressPools \<Rightarrow>
                                  (let loadBalancer =
                                         lb\<lparr>LoadBalancer_Properties :=
                                              Some (props\<lparr>BackendAddressPools := Some backendAddressPools\<rparr>)\<rparr>
                                   in case resourceGroupAndLBNameFromId h (d_Get_string ''loadbalancer_id'' s) of
                                        Inl e \<Rightarrow>
                                          returns (diag_Errorf
                                            ''Error parsing LoadBalancer Name and Group: %+v'' [e]) s
                                      | Inr (resGroup, loadBalancerName) \<Rightarrow>
                                          (let (err, s) = call_LoadBalancers_CreateOrUpdate meta resGroup
                                                            loadBalancerName loadBalancer s
                                           in case err of
                                                Some e \<Rightarrow>
                                                  returns (diag_Errorf
                                                    ''Error Creating/Updating LoadBalancer %q (Resource Group %q): %+v''
                                                    [loadBalancerName, resGroup, e]) s
                                              | None \<Rightarrow>
                                                  resourceArmLoadBalancerBackendAddressPoolCreate_afterSend
                                                    meta h name resGroup loadBalancerName s))))))"

text \<open>
  Delete, from \<open>future.WaitForCompletionRef\<close> on (the part of the function after the update
  of the load balancer was sent and accepted).
\<close>

definition resourceArmLoadBalancerBackendAddressPoolDelete_afterSend ::
  "ArmClient \<Rightarrow> string \<Rightarrow> string \<Rightarrow> session \<Rightarrow> result" where
  "resourceArmLoadBalancerBackendAddressPoolDelete_afterSend meta resGroup loadBalancerName s =
     (let (err, s) = call_LoadBalancers_WaitForCompletionRef meta s
      in case err of
           Some e \<Rightarrow>
             returns (diag_Errorf
               ''Error waiting for the completion for the LoadBalancer: %+v'' [e]) s
         | None \<Rightarrow>
             (let ((read, err), s) = call_LoadBalancers_Get meta resGroup loadBalancerName s
              in case err of
                   Some e \<Rightarrow>
                     returns (diag_Errorf
                       ''Error retrieving the LoadBalancer %q (Resource Group %q): %+v''
                       [loadBalancerName, resGroup, e]) s
                 | None \<Rightarrow>
                     (case LoadBalancer_ID read of
                        None \<Rightarrow>
                          returns (diag_Errorf
                            ''Cannot read LoadBalancer %q (resource group %q) ID''
                            [loadBalancerName, resGroup]) s
                      | Some _ \<Rightarrow> returns [] s)))"

definition resourceArmLoadBalancerBackendAddressPoolDelete :: operation where
  "resourceArmLoadBalancerBackendAddressPoolDelete meta h s =
     (let loadBalancerID = d_Get_string ''loadbalancer_id'' s;
          s = called (Lock_called loadBalancerID) s
      in deferred (called (Unlock_called loadBalancerID))
           (let ((loadBalancer, exists, err), s) = call_retrieveLoadBalancerById h loadBalancerID s
            in case err of
                 Some e \<Rightarrow> returns (diag_Errorf ''Error retrieving Load Balancer by ID: %+v'' [e]) s
               | None \<Rightarrow>
                   if \<not> exists then returns [] (d_SetId [] s)
                   else
                     (let (_, index, exists) =
                            findLoadBalancerBackEndAddressPoolByName loadBalancer (d_Get_string ''name'' s)
                      in if \<not> exists then returns [] s
                         else
                           (case deref_pools loadBalancer of
                              Inl p \<Rightarrow> panics p s
                            | Inr (lb, props, oldBackEndPools) \<Rightarrow>
                                (case remove_at index oldBackEndPools of
                                   Inl p \<Rightarrow> panics p s
                                 | Inr newBackEndPools \<Rightarrow>
                                     (let loadBalancer =
                                            lb\<lparr>LoadBalancer_Properties :=
                                                 Some (props\<lparr>BackendAddressPools := Some newBackEndPools\<rparr>)\<rparr>
                                      in case resourceGroupAndLBNameFromId h
                                                (d_Get_string ''loadbalancer_id'' s) of
                                           Inl e \<Rightarrow> returns (diag_FromErr (Some e)) s
                                         | Inr (resGroup, loadBalancerName) \<Rightarrow>
                                             (let (err, s) = call_LoadBalancers_CreateOrUpdate meta resGroup
                                                               loadBalancerName loadBalancer s
                                              in case err of
                                                   Some e \<Rightarrow>
                                                     returns (diag_Errorf
                                                       ''Error Creating/Updating LoadBalancer: %+v'' [e]) s
                                                 | None \<Rightarrow>
                                                     resourceArmLoadBalancerBackendAddressPoolDelete_afterSend
                                                       meta resGroup loadBalancerName s)))))))"

section \<open>Observations on a history\<close>

text \<open>
  What the history shows about a long-running operation of the client \<open>c\<close>: a start
  (\<open>CreateOrUpdate\<close>) that failed or succeeded, a poll (\<open>WaitForCompletionRef\<close>) that failed
  or ran to completion, a read back (\<open>Get\<close>), and a call of \<open>d.SetId\<close>.
\<close>

fun start_failed :: "client \<Rightarrow> event \<Rightarrow> bool" where
  "start_failed c (Called c' m args err) = (c' = c \<and> m = CreateOrUpdate \<and> err \<noteq> None)"
| "start_failed c _ = False"

fun start_succeeded :: "client \<Rightarrow> event \<Rightarrow> bool" where
  "start_succeeded c (Called c' m args err) = (c' = c \<and> m = CreateOrUpdate \<and> err = None)"
| "start_succeeded c _ = False"

fun poll_failed :: "client \<Rightarrow> event \<Rightarrow> bool" where
  "poll_failed c (Called c' m args err) = (c' = c \<and> m = WaitForCompletionRef \<and> err \<noteq> None)"
| "poll_failed c _ = False"

fun poll_completed :: "client \<Rightarrow> event \<Rightarrow> bool" where
  "poll_completed c (Called c' m args err) = (c' = c \<and> m = WaitForCompletionRef \<and> err = None)"
| "poll_completed c _ = False"

fun reads_back :: "client \<Rightarrow> event \<Rightarrow> bool" where
  "reads_back c (Called c' m args err) = (c' = c \<and> m = Get)"
| "reads_back c _ = False"

fun sets_id :: "event \<Rightarrow> bool" where
  "sets_id (SetId_called v) = True"
| "sets_id _ = False"

text \<open>\<open>in_order [P, Q] es\<close>: the list \<open>es\<close> has an event with \<open>P\<close> and, later, one with \<open>Q\<close>.\<close>

fun in_order :: "('a \<Rightarrow> bool) list \<Rightarrow> 'a list \<Rightarrow> bool" where
  "in_order [] es = True"
| "in_order (P # Ps) [] = False"
| "in_order (P # Ps) (e # es) = (if P e then in_order Ps es else in_order (P # Ps) es)"

text \<open>The events an operation added to the history of the session \<open>s\<close> it started from.\<close>

definition new_events :: "session \<Rightarrow> result \<Rightarrow> event list" where
  "new_events s r = drop (length (history s)) (history (snd r))"

text \<open>
  The property of an operation with result \<open>r\<close> from session \<open>s\<close>: it only appends to the
  history; if a start or a poll failed, it returns error diagnostics, leaves the resource
  data as it was and never calls \<open>d.SetId\<close>; and every read back and every \<open>d.SetId\<close> comes
  after a successful start followed by a completed poll.
\<close>

definition polled_before_state :: "client \<Rightarrow> session \<Rightarrow> result \<Rightarrow> bool" where
  "polled_before_state c s r =
     (let new = new_events s r in
        history (snd r) = history s @ new
      \<and> (list_ex (start_failed c) new \<or> list_ex (poll_failed c) new \<longrightarrow>
            (case fst r of Inl p \<Rightarrow> False | Inr diags \<Rightarrow> diags \<noteq> [])
            \<and> res_data (snd r) = res_data s
            \<and> \<not> list_ex sets_id new)
      \<and> list_all (\<lambda>n. reads_back c (new ! n) \<or> sets_id (new ! n) \<longrightarrow>
                        in_order [start_succeeded c, poll_completed c] (take n new))
           [0..<length new])"

text \<open>The updates of a load balancer sent to the service.\<close>

fun is_sent :: "event \<Rightarrow> bool" where
  "is_sent (LoadBalancer_sent resGroup loadBalancerName loadBalancer err) = True"
| "is_sent _ = False"

section \<open>A concrete service and configuration\<close>

text \<open>
  Concrete values at which the theorems about the resource operations are instantiated:
  helpers that accept every ID, and a service whose \<open>Get\<close> and \<open>Delete\<close> calls answer with
  the HTTP status \<open>status\<close> and the error \<open>call_err\<close>, whose \<open>CreateOrUpdate\<close> calls answer
  \<open>start_err\<close> and whose polls answer \<open>poll_err\<close>.
\<close>

definition example_pool :: "string \<Rightarrow> BackendAddressPool" where
  "example_pool n =
     \<lparr>Pool_ID = Some (''/lb1/backendAddressPools/'' @ n), Pool_Name = Some n,
      Pool_Etag = Some ''W/1'', Pool_Properties = None\<rparr>"

definition example_lb :: "int \<Rightarrow> LoadBalancer" where
  "example_lb status =
     \<lparr>LoadBalancer_Response = Some \<lparr>StatusCode = status\<rparr>, LoadBalancer_ID = Some ''/lb1'',
      LoadBalancer_Name = Some ''lb1'', LoadBalancer_Location = Some ''local'',
      LoadBalancer_Etag = Some ''W/7'', LoadBalancer_Tags = [(''env'', Some ''test'')],
      LoadBalancer_Properties =
        Some \<lparr>FrontendIPConfigurations = Some [''fe1''],
              BackendAddressPools = Some [example_pool ''pool0'', example_pool ''pool1''],
              LoadBalancer_LoadBalancingRules = Some [''rule1''], Probes = None,
              InboundNatRules = Some [], ProvisioningState = Some ''Succeeded''\<rparr>\<rparr>"

definition example_helpers :: Helpers where
  "example_helpers =
     \<lparr>parseAzureResourceID =
        (\<lambda>i. if i = [] then Inl ''empty resource ID''
             else Inr \<lparr>ResourceGroup = ''rg1'',
                       Path = [''A'' \<mapsto> ''www'', ''dnszones'' \<mapsto> ''example.com'',
                               ''routeTables'' \<mapsto> ''rt1'', ''routes'' \<mapsto> ''r1'',
                               ''availabilitySets'' \<mapsto> ''as1'', ''virtualMachines'' \<mapsto> ''vm1'',
                               ''extensions'' \<mapsto> ''ext1'', ''backendAddressPools'' \<mapsto> ''pool1'']\<rparr>),
      azureStackNormalizeLocation = (\<lambda>l. l),
      flattenAndSetTags = (\<lambda>d t. d),
      expandTags = (\<lambda>d. []),
      Set_error = (\<lambda>k v. None),
      routeTableResourceName = ''azurestack_route_table'',
      ExpandJsonFromString = (\<lambda>j. Inr j),
      FlattenJsonToString = (\<lambda>j. Inr j),
      retrieveLoadBalancerById = (\<lambda>hist i. (Some (example_lb 200), True, None)),
      resourceGroupAndLBNameFromId = (\<lambda>i. Inr (''rg1'', ''lb1''))\<rparr>"

definition example_meta ::
  "int \<Rightarrow> go_error option \<Rightarrow> go_error option \<Rightarrow> go_error option \<Rightarrow> ArmClient" where
  "example_meta status call_err start_err poll_err =
     \<lparr>dnsClient =
        \<lparr>RecordSets_Get =
           (\<lambda>hist rg z n.
              (\<lparr>RecordSet_Response = Some \<lparr>StatusCode = status\<rparr>, RecordSet_ID = Some ''/www'',
                RecordSet_Properties =
                  Some \<lparr>Metadata = [], TTL = Some 300,
                        ARecords = Some [\<lparr>Ipv4Address = Some ''10.0.0.4''\<rparr>]\<rparr>\<rparr>, call_err)),
         RecordSets_Delete = (\<lambda>hist rg z n. (Some \<lparr>StatusCode = status\<rparr>, call_err))\<rparr>,
      zonesClient =
        \<lparr>Zones_Get =
           (\<lambda>hist rg n.
              (\<lparr>Zone_Response = Some \<lparr>StatusCode = status\<rparr>, Zone_ID = Some ''/example.com'',
                Zone_Tags = [], Zone_Properties = None\<rparr>, call_err))\<rparr>,
      routesClient =
        \<lparr>Routes_CreateOrUpdate = (\<lambda>hist rg rt n r. start_err),
         Routes_WaitForCompletionRef = (\<lambda>hist. poll_err),
         Routes_Get =
           (\<lambda>hist rg rt n.
              (\<lparr>Route_Name = Some ''r1'', Route_Properties = None,
                Route_Response = Some \<lparr>StatusCode = status\<rparr>, Route_ID = Some ''/rt1/routes/r1''\<rparr>,
               call_err))\<rparr>,
      availSetClient =
        \<lparr>AvailabilitySets_Get =
           (\<lambda>hist rg n.
              (\<lparr>AvailabilitySet_Response = Some \<lparr>StatusCode = status\<rparr>,
                AvailabilitySet_ID = Some ''/as1'', AvailabilitySet_Name = Some ''as1'',
                AvailabilitySet_Location = None, AvailabilitySet_Sku_Name = None,
                AvailabilitySet_Tags = [], AvailabilitySet_Properties = None\<rparr>, call_err))\<rparr>,
      vmExtensionClient =
        \<lparr>Extensions_CreateOrUpdate = (\<lambda>hist rg vm n x. start_err),
         Extensions_WaitForCompletionRef = (\<lambda>hist. poll_err),
         Extensions_Get =
           (\<lambda>hist rg vm n.
              (\<lparr>Extension_Response = Some \<lparr>StatusCode = status\<rparr>,
                Extension_ID = Some ''/vm1/extensions/ext1'', Extension_Name = Some ''ext1'',
                Extension_Location = None, Extension_Tags = [], Extension_Properties = None\<rparr>,
               call_err))\<rparr>,
      loadBalancerClient =
        \<lparr>LoadBalancers_CreateOrUpdate = (\<lambda>hist rg n lb. start_err),
         LoadBalancers_WaitForCompletionRef = (\<lambda>hist. poll_err),
         LoadBalancers_Get = (\<lambda>hist rg n. (example_lb status, call_err)),
         LoadBalancers_WaitForState = (\<lambda>hist. None)\<rparr>\<rparr>"

definition example_session :: session where
  "example_session =
     \<lparr>res_data =
        \<lparr>ResourceData_Id = ''/subscriptions/0/resourceGroups/rg1/x'',
         attrs = [''name'' \<mapsto> Str ''pool1'', ''loadbalancer_id'' \<mapsto> Str ''/lb1'',
                  ''route_table_name'' \<mapsto> Str ''rt1'', ''resource_group_name'' \<mapsto> Str ''rg1'',
                  ''virtual_machine_name'' \<mapsto> Str ''vm1'']\<rparr>,
      history = []\<rparr>"

section \<open>Properties of the DNS A record flattening\<close>

lemma flattenARecords_loop_all_present:
  "flattenARecords_loop (map (\<lambda>ip. \<lparr>Ipv4Address = Some ip\<rparr>) ips) acc = Inr (acc @ ips)"
  by (induction ips arbitrary: acc) (simp_all add: deref_def)

text \<open>
  C10. The claim says that \<open>flattenAzureStackDnsARecords\<close> is total, a nil records
  pointer being treated as an empty list. On the code, the nil pointer is dereferenced
  by \<open>len(*records)\<close> before the nil test, so the call panics; a non-nil list whose
  records all carry an address is flattened in input order.
\<close>

theorem flattenAzureStackDnsARecords_nil_panics:
  "flattenAzureStackDnsARecords None = Inl NilPointerDereference
   \<and> flattenAzureStackDnsARecords (Some (map (\<lambda>ip. \<lparr>Ipv4Address = Some ip\<rparr>) ips)) = Inr ips"
  by (simp add: flattenAzureStackDnsARecords_def deref_def flattenARecords_loop_all_present)

section \<open>Properties of the route table flattening\<close>

lemma flattenRoute_spec:
  assumes "Route_Name r = Some n"
      and "\<And>p. Route_Properties r = Some p \<Longrightarrow> AddressPrefix p \<noteq> None"
  shows "\<exists>m. flattenRoute r = Inr m
           \<and> m ''name'' = Some n
           \<and> m ''address_prefix'' = Option.bind (Route_Properties r) AddressPrefix
           \<and> m ''next_hop_type'' = map_option NextHopType (Route_Properties r)
           \<and> m ''next_hop_in_ip_address'' = Option.bind (Route_Properties r) NextHopIPAddress
           \<and> dom m \<subseteq> {''name'', ''address_prefix'', ''next_hop_type'', ''next_hop_in_ip_address''}"
proof (cases "Route_Properties r")
  case None
  with assms(1) show ?thesis by (simp add: flattenRoute_def deref_def)
next
  case (Some p)
  with assms(2) obtain a where a: "AddressPrefix p = Some a" by auto
  show ?thesis
  proof (cases "NextHopIPAddress p")
    case None
    with Some a assms(1) show ?thesis by (simp add: flattenRoute_def deref_def)
  next
    case (Some ip)
    with \<open>Route_Properties r = Some p\<close> a assms(1) show ?thesis
      by (simp add: flattenRoute_def deref_def)
  qed
qed

lemma flattenRoutes_loop_spec:
  assumes "\<forall>r\<in>set rs. Route_Name r \<noteq> None \<and> (\<forall>p. Route_Properties r = Some p \<longrightarrow> AddressPrefix p \<noteq> None)"
  shows "\<exists>ms. flattenRoutes_loop rs acc = Inr (acc @ ms) \<and> map Inr ms = map flattenRoute rs"
  using assms
proof (induction rs arbitrary: acc)
  case Nil
  then show ?case by simp
next
  case (Cons r rs)
  from Cons.prems obtain n where n: "Route_Name r = Some n" by auto
  from Cons.prems have p: "\<And>p. Route_Properties r = Some p \<Longrightarrow> AddressPrefix p \<noteq> None" by auto
  from flattenRoute_spec[OF n p] obtain m where m: "flattenRoute r = Inr m" by blast
  from Cons.IH[of "acc @ [m]"] Cons.prems
  obtain ms where "flattenRoutes_loop rs (acc @ [m]) = Inr ((acc @ [m]) @ ms)" "map Inr ms = map flattenRoute rs"
    by auto
  with m show ?case by (intro exI[of _ "m # ms"]) simp
qed

lemma flattenSubnets_loop_spec:
  assumes "\<forall>s\<in>set ss. Subnet_ID s \<noteq> None"
  shows "\<exists>ids. flattenSubnets_loop ss acc = Inr (acc @ ids) \<and> map Some ids = map Subnet_ID ss"
  using assms
proof (induction ss arbitrary: acc)
  case Nil
  then show ?case by simp
next
  case (Cons s ss)
  from Cons.prems obtain i where i: "Subnet_ID s = Some i" by auto
  from Cons.IH[of "acc @ [i]"] Cons.prems
  obtain ids where "flattenSubnets_loop ss (acc @ [i]) = Inr ((acc @ [i]) @ ids)" "map Some ids = map Subnet_ID ss"
    by auto
  with i show ?case by (intro exI[of _ "i # ids"]) (simp add: deref_def)
qed

text \<open>
  C7. For a route list whose elements have a non-nil Name and, where properties are
  present, a non-nil AddressPrefix, \<open>flattenRouteTableDataSourceRoutes\<close> returns one map
  per route, in input order, holding that route's name, address prefix, next hop type and
  (when present) next hop IP address and nothing else; for a subnet list whose elements
  have a non-nil ID, \<open>flattenRouteTableDataSourceSubnets\<close> returns exactly the IDs in
  input order; a nil input pointer yields the empty result in both functions.
\<close>

theorem flattenRouteTable_preserves_order:
  assumes routes_ok: "\<forall>r\<in>set routes. Route_Name r \<noteq> None \<and> (\<forall>p. Route_Properties r = Some p \<longrightarrow> AddressPrefix p \<noteq> None)"
      and subnets_ok: "\<forall>s\<in>set subnets. Subnet_ID s \<noteq> None"
  shows "(\<exists>ms. flattenRouteTableDataSourceRoutes (Some routes) = Inr ms
            \<and> length ms = length routes
            \<and> (\<forall>i<length routes.
                  (ms ! i) ''name'' = Route_Name (routes ! i)
                \<and> (ms ! i) ''address_prefix'' = Option.bind (Route_Properties (routes ! i)) AddressPrefix
                \<and> (ms ! i) ''next_hop_type'' = map_option NextHopType (Route_Properties (routes ! i))
                \<and> (ms ! i) ''next_hop_in_ip_address'' = Option.bind (Route_Properties (routes ! i)) NextHopIPAddress
                \<and> dom (ms ! i) \<subseteq> {''name'', ''address_prefix'', ''next_hop_type'', ''next_hop_in_ip_address''}))
       \<and> (\<exists>ids. flattenRouteTableDataSourceSubnets (Some subnets) = Inr ids
            \<and> map Some ids = map Subnet_ID subnets)
       \<and> flattenRouteTableDataSourceRoutes None = Inr []
       \<and> flattenRouteTableDataSourceSubnets None = Inr []"
proof -
  from flattenRoutes_loop_spec[OF routes_ok, of "[]"]
  obtain ms where ms: "flattenRoutes_loop routes [] = Inr ms" "map Inr ms = map flattenRoute routes"
    by auto
  from ms(2) have len: "length ms = length routes" by (metis length_map)
  have each: "(ms ! i) ''name'' = Route_Name (routes ! i)
                \<and> (ms ! i) ''address_prefix'' = Option.bind (Route_Properties (routes ! i)) AddressPrefix
                \<and> (ms ! i) ''next_hop_type'' = map_option NextHopType (Route_Properties (routes ! i))
                \<and> (ms ! i) ''next_hop_in_ip_address'' = Option.bind (Route_Properties (routes ! i)) NextHopIPAddress
                \<and> dom (ms ! i) \<subseteq> {''name'', ''address_prefix'', ''next_hop_type'', ''next_hop_in_ip_address''}"
    if i: "i < length routes" for i
  proof -
    from i have mem: "routes ! i \<in> set routes" by simp
    with routes_ok obtain n where n: "Route_Name (routes ! i) = Some n" by auto
    from mem routes_ok have p: "\<And>p. Route_Properties (routes ! i) = Some p \<Longrightarrow> AddressPrefix p \<noteq> None" by auto
    from ms(2) i len have "flattenRoute (routes ! i) = Inr (ms ! i)"
      by (metis nth_map)
    with flattenRoute_spec[OF n p] n show ?thesis by auto
  qed
  from flattenSubnets_loop_spec[OF subnets_ok, of "[]"]
  obtain ids where ids: "flattenSubnets_loop subnets [] = Inr ids" "map Some ids = map Subnet_ID subnets"
    by auto
  show ?thesis
    using ms(1) len each ids
    by (simp add: flattenRouteTableDataSourceRoutes_def flattenRouteTableDataSourceSubnets_def)
qed

theorem flattenRouteTable_preserves_order_witness:
  "flattenRouteTableDataSourceRoutes (Some
      [\<lparr>Route_Name = Some ''r1'', Route_Properties = Some \<lparr>AddressPrefix = Some ''10.0.0.0/8'',
           NextHopType = ''VirtualAppliance'', NextHopIPAddress = Some ''10.1.1.1''\<rparr>\<rparr>,
       \<lparr>Route_Name = Some ''r2'', Route_Properties = Some \<lparr>AddressPrefix = Some ''0.0.0.0/0'',
           NextHopType = ''Internet'', NextHopIPAddress = None\<rparr>\<rparr>])
     = Inr [[''name'' \<mapsto> ''r1'', ''address_prefix'' \<mapsto> ''10.0.0.0/8'',
             ''next_hop_type'' \<mapsto> ''VirtualAppliance'', ''next_hop_in_ip_address'' \<mapsto> ''10.1.1.1''],
            [''name'' \<mapsto> ''r2'', ''address_prefix'' \<mapsto> ''0.0.0.0/0'', ''next_hop_type'' \<mapsto> ''Internet'']]
   \<and> flattenRouteTableDataSourceSubnets (Some [\<lparr>Subnet_ID = Some ''/subnets/a''\<rparr>, \<lparr>Subnet_ID = Some ''/subnets/b''\<rparr>])
     = Inr [''/subnets/a'', ''/subnets/b'']"
  using flattenRouteTable_preserves_order [of
      "[\<lparr>Route_Name = Some ''r1'', Route_Properties = Some \<lparr>AddressPrefix = Some ''10.0.0.0/8'',
           NextHopType = ''VirtualAppliance'', NextHopIPAddress = Some ''10.1.1.1''\<rparr>\<rparr>,
       \<lparr>Route_Name = Some ''r2'', Route_Properties = Some \<lparr>AddressPrefix = Some ''0.0.0.0/0'',
           NextHopType = ''Internet'', NextHopIPAddress = None\<rparr>\<rparr>]"
      "[\<lparr>Subnet_ID = Some ''/subnets/a''\<rparr>, \<lparr>Subnet_ID = Some ''/subnets/b''\<rparr>]"]
  by (simp add: flattenRouteTableDataSourceRoutes_def flattenRouteTableDataSourceSubnets_def
        flattenRoute_def deref_def)

section \<open>Properties of the mutex registry\<close>

lemma registry_ok_New: "registry_ok NewMutexKV"
  by (simp add: registry_ok_def NewMutexKV_def)

lemma get_store: "store (snd (get k m)) k = Some (fst (get k m))"
  by (simp add: get_def Let_def split: option.splits)

lemma get_keeps: "store m k = Some r \<Longrightarrow> store (snd (get k' m)) k = Some r"
  by (auto simp: get_def Let_def split: option.splits)

lemma get_hit: "store m k = Some r \<Longrightarrow> get k m = (r, m)"
  by (simp add: get_def)

lemma get_ok:
  assumes "registry_ok m"
  shows "registry_ok (snd (get k m))"
proof (cases "store m k")
  case (Some r)
  with assms show ?thesis by (simp add: get_def)
next
  case None
  have bound: "\<And>k r. store m k = Some r \<Longrightarrow> r < allocated m"
    and inj: "\<And>k k' r. store m k = Some r \<Longrightarrow> store m k' = Some r \<Longrightarrow> k = k'"
    using assms unfolding registry_ok_def by blast+
  have fresh: "store m k' \<noteq> Some (allocated m)" for k'
    using bound[of k' "allocated m"] by auto
  show ?thesis
    using None bound inj fresh
    by (auto simp: registry_ok_def get_def Let_def less_Suc_eq split: if_splits)
qed

lemma exec_store: "store (snd (exec op m)) = store (snd (get (case op of OpLock k \<Rightarrow> k | OpUnlock k \<Rightarrow> k | OpGet k \<Rightarrow> k) m))"
  by (cases op) (simp_all add: Lock_def Unlock_def split: prod.splits)

lemma exec_allocated: "allocated (snd (exec op m)) = allocated (snd (get (case op of OpLock k \<Rightarrow> k | OpUnlock k \<Rightarrow> k | OpGet k \<Rightarrow> k) m))"
  by (cases op) (simp_all add: Lock_def Unlock_def split: prod.splits)

lemma exec_ok: "registry_ok m \<Longrightarrow> registry_ok (snd (exec op m))"
  using get_ok[of m] unfolding registry_ok_def exec_store exec_allocated by blast

lemma exec_keeps: "store m k = Some r \<Longrightarrow> store (snd (exec op m)) k = Some r"
  by (simp add: exec_store get_keeps)

lemma run_ok: "registry_ok m \<Longrightarrow> registry_ok (run ops m)"
  by (induction ops arbitrary: m) (simp_all add: exec_ok)

lemma run_keeps: "store m k = Some r \<Longrightarrow> store (run ops m) k = Some r"
  by (induction ops arbitrary: m) (simp_all add: exec_keeps)

lemma exec_mutex: "snd (fst (exec op m)) = fst (get (case op of OpLock k \<Rightarrow> k | OpUnlock k \<Rightarrow> k | OpGet k \<Rightarrow> k) m)"
  by (cases op) (simp_all add: Lock_def Unlock_def split: prod.splits)

text \<open>
  C1. After any sequence of Lock, Unlock and get calls on a MutexKV made by \<open>NewMutexKV\<close>,
  \<open>get k\<close> returns the same mutex now and after any further sequence of calls; an entry
  of the store is never replaced; a different key gets a different mutex; and every
  later Lock and Unlock with key \<open>k\<close> acts on the mutex that \<open>get k\<close> returned.
\<close>

theorem MutexKV_registry_invariant:
  fixes before between :: "kv_op list"
  defines "m \<equiv> run before NewMutexKV"
  shows "fst (get k (run between (snd (get k m)))) = fst (get k m)
       \<and> (store m k = Some r \<longrightarrow> store (run between m) k = Some r)
       \<and> (k \<noteq> k' \<longrightarrow> fst (get k' (run between (snd (get k m)))) \<noteq> fst (get k m))
       \<and> snd (fst (Lock k (run between (snd (get k m))))) = fst (get k m)
       \<and> snd (fst (Unlock k (run between (snd (get k m))))) = fst (get k m)"
proof -
  let ?m1 = "snd (get k m)" and ?r = "fst (get k m)"
  let ?m2 = "run between ?m1"
  have ok: "registry_ok m" unfolding m_def by (rule run_ok[OF registry_ok_New])
  have s1: "store ?m1 k = Some ?r" by (rule get_store)
  then have s2: "store ?m2 k = Some ?r" by (rule run_keeps)
  then have same: "fst (get k ?m2) = ?r" by (simp add: get_hit)
  have ok2: "registry_ok (snd (get k' ?m2))"
    by (intro get_ok run_ok ok)
  have "store (snd (get k' ?m2)) k = Some ?r" using s2 by (rule get_keeps)
  moreover have "store (snd (get k' ?m2)) k' = Some (fst (get k' ?m2))" by (rule get_store)
  ultimately have distinct: "k \<noteq> k' \<longrightarrow> fst (get k' ?m2) \<noteq> ?r"
    using ok2 unfolding registry_ok_def by metis
  have "snd (fst (Lock k ?m2)) = ?r" "snd (fst (Unlock k ?m2)) = ?r"
    using exec_mutex[of "OpLock k" ?m2] exec_mutex[of "OpUnlock k" ?m2] same by simp_all
  with same distinct run_keeps[of m k r between] show ?thesis by simp
qed

theorem MutexKV_registry_invariant_witness:
  "fst (get ''lb1'' (run [OpUnlock ''lb1'', OpGet ''lb2'']
          (snd (get ''lb1'' (run [OpLock ''lb1'', OpLock ''lb2''] NewMutexKV)))))
     = fst (get ''lb1'' (run [OpLock ''lb1'', OpLock ''lb2''] NewMutexKV))
   \<and> store (run [OpLock ''lb1'', OpLock ''lb2''] NewMutexKV) ''lb1'' = Some 0
   \<and> store (run [OpUnlock ''lb1'', OpGet ''lb2''] (run [OpLock ''lb1'', OpLock ''lb2''] NewMutexKV)) ''lb1''
       = Some 0
   \<and> ''lb1'' \<noteq> ''lb2''
   \<and> fst (get ''lb2'' (run [OpUnlock ''lb1'', OpGet ''lb2'']
          (snd (get ''lb1'' (run [OpLock ''lb1'', OpLock ''lb2''] NewMutexKV)))))
       \<noteq> fst (get ''lb1'' (run [OpLock ''lb1'', OpLock ''lb2''] NewMutexKV))"
  using MutexKV_registry_invariant [of "''lb1''" "[OpUnlock ''lb1'', OpGet ''lb2'']"
      "[OpLock ''lb1'', OpLock ''lb2'']" 0 "''lb2''"]
  by (simp add: NewMutexKV_def Lock_def Unlock_def get_def)

section \<open>Properties of the storage container name validation\<close>

lemma iterate_ends_single_step:
  assumes f: "\<And>i. f i = (if P i then [Suc i] else [])"
  shows "j \<in> set (iterate_ends n f i)
     \<longleftrightarrow> i < j \<and> j \<le> i + n \<and> (\<forall>k. i \<le> k \<and> k < j \<longrightarrow> P k)"
proof (induction n arbitrary: i)
  case 0
  then show ?case by auto
next
  case (Suc n)
  show ?case
  proof (cases "P i")
    case False
    then have "f i = []" by (simp add: f)
    moreover have "\<not> (i < j \<and> (\<forall>k. i \<le> k \<and> k < j \<longrightarrow> P k))"
      using False by (metis le_refl)
    ultimately show ?thesis by auto
  next
    case True
    then have fi: "f i = [Suc i]" by (simp add: f)
    have "j \<in> set (iterate_ends (Suc n) f i)
            \<longleftrightarrow> j = Suc i \<or> j \<in> set (iterate_ends n f (Suc i))"
      by (simp add: fi)
    also have "\<dots> \<longleftrightarrow> j = Suc i \<or> (Suc i < j \<and> j \<le> Suc i + n
                  \<and> (\<forall>k. Suc i \<le> k \<and> k < j \<longrightarrow> P k))"
      by (simp only: Suc.IH)
    also have "\<dots> \<longleftrightarrow> i < j \<and> j \<le> i + Suc n \<and> (\<forall>k. i \<le> k \<and> k < j \<longrightarrow> P k)"
    proof -
      have step: "(\<forall>k. i \<le> k \<and> k < j \<longrightarrow> P k) \<longleftrightarrow> (\<forall>k. Suc i \<le> k \<and> k < j \<longrightarrow> P k)"
        using True by (metis Suc_leI le_neq_implies_less Suc_leD)
      show ?thesis unfolding step by (cases "j = Suc i") auto
    qed
    finally show ?thesis .
  qed
qed

lemma Plus_CharClass_whole:
  "length t \<in> set (ends (Plus (CharClass R)) t 0) \<longleftrightarrow> t \<noteq> [] \<and> (\<forall>c\<in>set t. in_class R c)"
proof -
  have "length t \<in> set (iterate_ends (Suc (length t)) (ends (CharClass R) t) 0)
          \<longleftrightarrow> 0 < length t \<and> length t \<le> 0 + Suc (length t)
              \<and> (\<forall>k. 0 \<le> k \<and> k < length t \<longrightarrow> k < length t \<and> in_class R (t ! k))"
    by (rule iterate_ends_single_step) simp
  then show ?thesis by (auto simp: all_set_conv_all_nth)
qed

lemma concat_map_nonempty: "concat (map g xs) \<noteq> [] \<longleftrightarrow> (\<exists>x\<in>set xs. g x \<noteq> [])"
  by (induction xs) auto

lemma ends_then_EndText: "ends (Concat a EndText) t i \<noteq> [] \<longleftrightarrow> length t \<in> set (ends a t i)"
  by (auto simp: concat_map_nonempty)

lemma MatchString_BeginText:
  "MatchString (Concat BeginText a) t \<longleftrightarrow> ends a t 0 \<noteq> []"
proof -
  have "MatchString (Concat BeginText a) t \<longleftrightarrow> (\<exists>i \<le> length t. i = 0 \<and> ends a t 0 \<noteq> [])"
    unfolding MatchString_def list_ex_iff by (auto simp: less_Suc_eq_le)
  then show ?thesis by auto
qed

lemma MatchString_Alternate:
  "MatchString (Alternate a b) t \<longleftrightarrow> MatchString a t \<or> MatchString b t"
  unfolding MatchString_def list_ex_iff by auto

lemma Literal_whole: "length t \<in> set (ends (Literal s) t 0) \<longleftrightarrow> t = s"
  by (auto simp: take_all_iff)

lemma MatchString_containerNamePattern:
  "MatchString containerNamePattern v \<longleftrightarrow>
     v = ''$root'' \<or> (v \<noteq> [] \<and> (\<forall>c\<in>set v. in_class [(CHR ''0'', CHR ''9''), (CHR ''a'', CHR ''z''), (CHR ''-'', CHR ''-'')] c))"
  by (simp only: containerNamePattern_def MatchString_Alternate MatchString_BeginText
        ends_then_EndText Literal_whole Plus_CharClass_whole)

lemma MatchString_leadingHyphenPattern:
  "MatchString leadingHyphenPattern v \<longleftrightarrow> (\<exists>rest. v = CHR ''-'' # rest)"
  unfolding leadingHyphenPattern_def MatchString_BeginText
  by (cases v) auto

lemma in_class_chars:
  "in_class [(CHR ''0'', CHR ''9''), (CHR ''a'', CHR ''z''), (CHR ''-'', CHR ''-'')] c
     \<longleftrightarrow> c \<in> set ''abcdefghijklmnopqrstuvwxyz0123456789-''"
  by (cases c) (simp add: in_class_def)

text \<open>
  C6. For every string, \<open>validateArmStorageContainerName\<close> returns no errors if and only if
  the name is exactly \<open>$root\<close> or consists only of lowercase alphanumeric characters and
  hyphens, and its length is between 3 and 63, and it does not begin with a hyphen.
  Otherwise it returns one error per violated rule, in the order character rule, length
  rule, hyphen rule; the pattern needs at least one character, so the empty name counts
  as violating the character rule as well as the length rule. No warnings are returned.
\<close>

theorem validateArmStorageContainerName_rules:
  "(snd (validateArmStorageContainerName v k) = []
      \<longleftrightarrow> (v = ''$root'' \<or> (\<forall>c\<in>set v. c \<in> set ''abcdefghijklmnopqrstuvwxyz0123456789-''))
          \<and> 3 \<le> length v \<and> length v \<le> 63
          \<and> \<not> (\<exists>rest. v = CHR ''-'' # rest))
   \<and> snd (validateArmStorageContainerName v k)
       = (if v = ''$root'' \<or> (v \<noteq> [] \<and> (\<forall>c\<in>set v. c \<in> set ''abcdefghijklmnopqrstuvwxyz0123456789-''))
          then [] else [OnlyLowercaseAlphanumericAndHyphens k v])
       @ (if 3 \<le> length v \<and> length v \<le> 63 then [] else [MustBeBetween3And63Characters k v])
       @ (if \<exists>rest. v = CHR ''-'' # rest then [CannotBeginWithHyphen k v] else [])
   \<and> fst (validateArmStorageContainerName v k) = []"
proof -
  have empty: "v = [] \<Longrightarrow> \<not> 3 \<le> length v" by simp
  show ?thesis
    unfolding validateArmStorageContainerName_def Let_def
      MatchString_containerNamePattern MatchString_leadingHyphenPattern in_class_chars
    using empty by (auto simp del: set_simps list.set)
qed


theorem validateArmStorageContainerName_rules_witness:
  "snd (validateArmStorageContainerName ''vhds-01'' ''name'') = []
   \<and> snd (validateArmStorageContainerName ''$root'' ''name'') = []
   \<and> snd (validateArmStorageContainerName ''-A'' ''name'')
       = [OnlyLowercaseAlphanumericAndHyphens ''name'' ''-A'',
          MustBeBetween3And63Characters ''name'' ''-A'',
          CannotBeginWithHyphen ''name'' ''-A'']"
  using validateArmStorageContainerName_rules [of "''vhds-01''" "''name''"]
    validateArmStorageContainerName_rules [of "''$root''" "''name''"]
    validateArmStorageContainerName_rules [of "''-A''" "''name''"]
  by simp

section \<open>Properties of the Read operations\<close>

lemma res_data_called [simp]: "res_data (called e s) = res_data s"
  by (simp add: called_def)

lemma res_data_d_SetId [simp]: "res_data (d_SetId v s) = (res_data s)\<lparr>ResourceData_Id := v\<rparr>"
  by (simp add: d_SetId_def called_def)

lemma diag_Errorf_nonempty [simp]: "diag_Errorf f args \<noteq> []"
  by (simp add: diag_Errorf_def)

lemma DnsARecordRead_get_failure:
  assumes "parseAzureResourceID h (d_Id s) = Inr rid"
      and "RecordSets_Get (dnsClient meta) (history s) (ResourceGroup rid) (path rid ''dnszones'')
             (path rid ''A'') = (resp, Some e)"
  shows "resourceArmDnsARecordRead meta h s =
           (if ResponseWasNotFound (RecordSet_Response resp)
            then returns [] (d_SetId [] (called (Called Dns Get
                    [ResourceGroup rid, path rid ''dnszones'', path rid ''A''] (Some e)) s))
            else returns (diag_Errorf ''Error reading DNS A record %s: %+v'' [path rid ''A'', e])
                   (called (Called Dns Get
                    [ResourceGroup rid, path rid ''dnszones'', path rid ''A''] (Some e)) s))"
  using assms by (simp add: resourceArmDnsARecordRead_def call_RecordSets_Get_def Let_def)

lemma RouteRead_get_failure:
  assumes "parseAzureResourceID h (d_Id s) = Inr rid"
      and "Routes_Get (routesClient meta) (history s) (ResourceGroup rid) (path rid ''routeTables'')
             (path rid ''routes'') = (resp, Some e)"
  shows "resourceArmRouteRead meta h s =
           (if ResponseWasNotFound (Route_Response resp)
            then returns [] (d_SetId [] (called (Called Routes Get
                    [ResourceGroup rid, path rid ''routeTables'', path rid ''routes''] (Some e)) s))
            else returns (diag_Errorf ''Error making Read request on Azure Route %q: %+v''
                            [path rid ''routes'', e])
                   (called (Called Routes Get
                    [ResourceGroup rid, path rid ''routeTables'', path rid ''routes''] (Some e)) s))"
  using assms by (simp add: resourceArmRouteRead_def call_Routes_Get_def Let_def)

lemma AvailabilitySetRead_get_failure:
  assumes "parseAzureResourceID h (d_Id s) = Inr rid"
      and "AvailabilitySets_Get (availSetClient meta) (history s) (ResourceGroup rid)
             (path rid ''availabilitySets'') = (resp, Some e)"
  shows "resourceArmAvailabilitySetRead meta h s =
           (if ResponseWasNotFound (AvailabilitySet_Response resp)
            then returns [] (d_SetId [] (called (Called AvailSets Get
                    [ResourceGroup rid, path rid ''availabilitySets''] (Some e)) s))
            else returns (diag_Errorf
                     ''Error making Read request on Azure Availability Set %q (Resource Group %q): %+v''
                     [path rid ''availabilitySets'', ResourceGroup rid, e])
                   (called (Called AvailSets Get
                    [ResourceGroup rid, path rid ''availabilitySets''] (Some e)) s))"
  using assms by (simp add: resourceArmAvailabilitySetRead_def call_AvailabilitySets_Get_def Let_def)

lemma DnsZoneRead_get_failure:
  assumes "parseAzureResourceID h (d_Id s) = Inr rid"
      and "Zones_Get (zonesClient meta) (history s) (ResourceGroup rid) (path rid ''dnszones'')
             = (resp, Some e)"
  shows "resourceArmDnsZoneRead meta h s =
           (if ResponseWasNotFound (Zone_Response resp)
            then returns [] (d_SetId [] (called (Called Zones Get
                    [ResourceGroup rid, path rid ''dnszones''] (Some e)) s))
            else returns (diag_Errorf ''Error reading DNS zone %s (resource group %s): %+v''
                            [path rid ''dnszones'', ResourceGroup rid, e])
                   (called (Called Zones Get
                    [ResourceGroup rid, path rid ''dnszones''] (Some e)) s))"
  using assms by (simp add: resourceArmDnsZoneRead_def call_Zones_Get_def Let_def)

text \<open>
  C3. In the Read operation of the DNS A record, the route, the availability set and the
  DNS zone: when the GET call fails and the response was Not-Found, the operation sets
  the resource ID to the empty string and returns no diagnostics; when the GET call
  fails otherwise, it returns non-empty diagnostics and leaves the resource data, and so
  the stored ID, unchanged.
\<close>

theorem read_not_found_is_removed_from_state:
  assumes parse: "parseAzureResourceID h (d_Id s) = Inr rid"
  shows
    "(\<forall>resp e. RecordSets_Get (dnsClient meta) (history s) (ResourceGroup rid)
                  (path rid ''dnszones'') (path rid ''A'') = (resp, Some e) \<longrightarrow>
        (if ResponseWasNotFound (RecordSet_Response resp)
         then fst (resourceArmDnsARecordRead meta h s) = Inr []
              \<and> res_data (snd (resourceArmDnsARecordRead meta h s))
                  = (res_data s)\<lparr>ResourceData_Id := []\<rparr>
         else (\<exists>diags. fst (resourceArmDnsARecordRead meta h s) = Inr diags \<and> diags \<noteq> [])
              \<and> res_data (snd (resourceArmDnsARecordRead meta h s)) = res_data s))
   \<and> (\<forall>resp e. Routes_Get (routesClient meta) (history s) (ResourceGroup rid)
                  (path rid ''routeTables'') (path rid ''routes'') = (resp, Some e) \<longrightarrow>
        (if ResponseWasNotFound (Route_Response resp)
         then fst (resourceArmRouteRead meta h s) = Inr []
              \<and> res_data (snd (resourceArmRouteRead meta h s))
                  = (res_data s)\<lparr>ResourceData_Id := []\<rparr>
         else (\<exists>diags. fst (resourceArmRouteRead meta h s) = Inr diags \<and> diags \<noteq> [])
              \<and> res_data (snd (resourceArmRouteRead meta h s)) = res_data s))
   \<and> (\<forall>resp e. AvailabilitySets_Get (availSetClient meta) (history s) (ResourceGroup rid)
                  (path rid ''availabilitySets'') = (resp, Some e) \<longrightarrow>
        (if ResponseWasNotFound (AvailabilitySet_Response resp)
         then fst (resourceArmAvailabilitySetRead meta h s) = Inr []
              \<and> res_data (snd (resourceArmAvailabilitySetRead meta h s))
                  = (res_data s)\<lparr>ResourceData_Id := []\<rparr>
         else (\<exists>diags. fst (resourceArmAvailabilitySetRead meta h s) = Inr diags \<and> diags \<noteq> [])
              \<and> res_data (snd (resourceArmAvailabilitySetRead meta h s)) = res_data s))
   \<and> (\<forall>resp e. Zones_Get (zonesClient meta) (history s) (ResourceGroup rid)
                  (path rid ''dnszones'') = (resp, Some e) \<longrightarrow>
        (if ResponseWasNotFound (Zone_Response resp)
         then fst (resourceArmDnsZoneRead meta h s) = Inr []
              \<and> res_data (snd (resourceArmDnsZoneRead meta h s))
                  = (res_data s)\<lparr>ResourceData_Id := []\<rparr>
         else (\<exists>diags. fst (resourceArmDnsZoneRead meta h s) = Inr diags \<and> diags \<noteq> [])
              \<and> res_data (snd (resourceArmDnsZoneRead meta h s)) = res_data s))"
proof (intro conjI allI impI)
  fix resp e
  assume "RecordSets_Get (dnsClient meta) (history s) (ResourceGroup rid)
            (path rid ''dnszones'') (path rid ''A'') = (resp, Some e)"
  from DnsARecordRead_get_failure[OF parse this]
  show "if ResponseWasNotFound (RecordSet_Response resp)
         then fst (resourceArmDnsARecordRead meta h s) = Inr []
              \<and> res_data (snd (resourceArmDnsARecordRead meta h s))
                  = (res_data s)\<lparr>ResourceData_Id := []\<rparr>
         else (\<exists>diags. fst (resourceArmDnsARecordRead meta h s) = Inr diags \<and> diags \<noteq> [])
              \<and> res_data (snd (resourceArmDnsARecordRead meta h s)) = res_data s"
    by (simp add: returns_def)
next
  fix resp e
  assume "Routes_Get (routesClient meta) (history s) (ResourceGroup rid)
                  (path rid ''routeTables'') (path rid ''routes'') = (resp, Some e)"
  from RouteRead_get_failure[OF parse this]
  show "if ResponseWasNotFound (Route_Response resp)
         then fst (resourceArmRouteRead meta h s) = Inr []
              \<and> res_data (snd (resourceArmRouteRead meta h s))
                  = (res_data s)\<lparr>ResourceData_Id := []\<rparr>
         else (\<exists>diags. fst (resourceArmRouteRead meta h s) = Inr diags \<and> diags \<noteq> [])
              \<and> res_data (snd (resourceArmRouteRead meta h s)) = res_data s"
    by (simp add: returns_def)
next
  fix resp e
  assume "AvailabilitySets_Get (availSetClient meta) (history s) (ResourceGroup rid)
                  (path rid ''availabilitySets'') = (resp, Some e)"
  from AvailabilitySetRead_get_failure[OF parse this]
  show "if ResponseWasNotFound (AvailabilitySet_Response resp)
         then fst (resourceArmAvailabilitySetRead meta h s) = Inr []
              \<and> res_data (snd (resourceArmAvailabilitySetRead meta h s))
                  = (res_data s)\<lparr>ResourceData_Id := []\<rparr>
         else (\<exists>diags. fst (resourceArmAvailabilitySetRead meta h s) = Inr diags \<and> diags \<noteq> [])
              \<and> res_data (snd (resourceArmAvailabilitySetRead meta h s)) = res_data s"
    by (simp add: returns_def)
next
  fix resp e
  assume "Zones_Get (zonesClient meta) (history s) (ResourceGroup rid)
                  (path rid ''dnszones'') = (resp, Some e)"
  from DnsZoneRead_get_failure[OF parse this]
  show "if ResponseWasNotFound (Zone_Response resp)
         then fst (resourceArmDnsZoneRead meta h s) = Inr []
              \<and> res_data (snd (resourceArmDnsZoneRead meta h s))
                  = (res_data s)\<lparr>ResourceData_Id := []\<rparr>
         else (\<exists>diags. fst (resourceArmDnsZoneRead meta h s) = Inr diags \<and> diags \<noteq> [])
              \<and> res_data (snd (resourceArmDnsZoneRead meta h s)) = res_data s"
    by (simp add: returns_def)
qed

theorem read_not_found_is_removed_from_state_witness:
  "fst (resourceArmDnsARecordRead (example_meta 404 (Some ''not found'') None None)
          example_helpers example_session) = Inr []
   \<and> res_data (snd (resourceArmDnsARecordRead (example_meta 404 (Some ''not found'') None None)
          example_helpers example_session))
       = (res_data example_session)\<lparr>ResourceData_Id := []\<rparr>
   \<and> (\<exists>diags. fst (resourceArmRouteRead (example_meta 500 (Some ''server error'') None None)
          example_helpers example_session) = Inr diags \<and> diags \<noteq> [])
   \<and> res_data (snd (resourceArmRouteRead (example_meta 500 (Some ''server error'') None None)
          example_helpers example_session))
       = res_data example_session"
proof -
  let ?rid = "\<lparr>ResourceGroup = ''rg1'',
             Path = [''A'' \<mapsto> ''www'', ''dnszones'' \<mapsto> ''example.com'',
                     ''routeTables'' \<mapsto> ''rt1'', ''routes'' \<mapsto> ''r1'',
                     ''availabilitySets'' \<mapsto> ''as1'', ''virtualMachines'' \<mapsto> ''vm1'',
                     ''extensions'' \<mapsto> ''ext1'', ''backendAddressPools'' \<mapsto> ''pool1'']\<rparr>"
  let ?m404 = "example_meta 404 (Some ''not found'') None None"
  let ?m500 = "example_meta 500 (Some ''server error'') None None"
  have parse: "parseAzureResourceID example_helpers (d_Id example_session) = Inr ?rid"
    by (simp add: example_helpers_def example_session_def d_Id_def)
  have get404: "RecordSets_Get (dnsClient ?m404) (history example_session) (ResourceGroup ?rid)
        (path ?rid ''dnszones'') (path ?rid ''A'')
      = (\<lparr>RecordSet_Response = Some \<lparr>StatusCode = 404\<rparr>, RecordSet_ID = Some ''/www'',
           RecordSet_Properties =
             Some \<lparr>Metadata = [], TTL = Some 300,
                   ARecords = Some [\<lparr>Ipv4Address = Some ''10.0.0.4''\<rparr>]\<rparr>\<rparr>, Some ''not found'')"
    by (simp add: example_meta_def)
  have get500: "Routes_Get (routesClient ?m500) (history example_session) (ResourceGroup ?rid)
        (path ?rid ''routeTables'') (path ?rid ''routes'')
      = (\<lparr>Route_Name = Some ''r1'', Route_Properties = None,
           Route_Response = Some \<lparr>StatusCode = 500\<rparr>, Route_ID = Some ''/rt1/routes/r1''\<rparr>,
         Some ''server error'')"
    by (simp add: example_meta_def)
  from read_not_found_is_removed_from_state [OF parse, of ?m404]
  have a: "fst (resourceArmDnsARecordRead ?m404 example_helpers example_session) = Inr []
           \<and> res_data (snd (resourceArmDnsARecordRead ?m404 example_helpers example_session))
               = (res_data example_session)\<lparr>ResourceData_Id := []\<rparr>"
    using get404 by (simp add: ResponseWasNotFound_def StatusNotFound_def)
  from read_not_found_is_removed_from_state [OF parse, of ?m500]
  have b: "(\<exists>diags. fst (resourceArmRouteRead ?m500 example_helpers example_session) = Inr diags
                 \<and> diags \<noteq> [])
           \<and> res_data (snd (resourceArmRouteRead ?m500 example_helpers example_session))
               = res_data example_session"
    using get500 by (simp add: ResponseWasNotFound_def StatusNotFound_def)
  from a b show ?thesis by simp
qed

section \<open>Properties of the DNS A record Delete\<close>

lemma DnsARecordDelete_decides_on_status:
  assumes "parseAzureResourceID h (d_Id s) = Inr rid"
      and "RecordSets_Delete (dnsClient meta) (history s) (ResourceGroup rid) (path rid ''dnszones'')
             (path rid ''A'') = (Some r, err)"
  shows "fst (resourceArmDnsARecordDelete meta h s) = Inr [] \<longleftrightarrow> StatusCode r = StatusOK"
  using assms
  by (simp add: resourceArmDnsARecordDelete_def call_RecordSets_Delete_def Let_def deref_def
        returns_def diag_Errorf_def)

text \<open>
  C5. The claim says that the DNS A record Delete returns error diagnostics exactly
  when the SDK delete call reports an error, whatever the status of a successful
  response. On the code, a delete call that succeeds with the status 204 (No Content)
  and a nil error makes the operation return an error diagnostic, whose message formats
  the nil error; and a delete call that fails without any HTTP response makes it panic.
\<close>

theorem DnsARecordDelete_204_is_reported_as_error:
  "fst (resourceArmDnsARecordDelete (example_meta StatusNoContent None None None)
          example_helpers example_session)
     = Inr [Diagnostic ''Error deleting DNS A Record %s: %+v'' [''www'', ''<nil>'']]
   \<and> fst (resourceArmDnsARecordDelete
          ((example_meta StatusOK None None None)
             \<lparr>dnsClient := (dnsClient (example_meta StatusOK None None None))
                \<lparr>RecordSets_Delete := (\<lambda>hist rg z n. (None, Some ''dial tcp: i/o timeout''))\<rparr>\<rparr>)
          example_helpers example_session)
     = Inl NilPointerDereference"
  by (simp add: resourceArmDnsARecordDelete_def call_RecordSets_Delete_def Let_def deref_def
        returns_def panics_def diag_Errorf_def example_meta_def example_helpers_def
        example_session_def d_Id_def path_def StatusNoContent_def StatusOK_def)

section \<open>Properties of the long-running operations\<close>

lemma history_d_Set_unchecked [simp]: "history (d_Set_unchecked h k v s) = history s"
  by (simp add: d_Set_unchecked_def d_Set_def split: option.splits)

lemma history_d_Set [simp]: "history (snd (d_Set h k v s)) = history s"
  by (simp add: d_Set_def split: option.splits)

lemma history_call_flattenAndSetTags [simp]: "history (call_flattenAndSetTags h t s) = history s"
  by (simp add: call_flattenAndSetTags_def)

lemma history_called [simp]: "history (called e s) = history s @ [e]"
  by (simp add: called_def)

lemma history_d_SetId [simp]: "history (d_SetId v s) = history s @ [SetId_called v]"
  by (simp add: d_SetId_def)

text \<open>The events of a Read: read backs and calls of SetId only.\<close>

lemma RouteRead_events:
  "\<exists>evs. history (snd (resourceArmRouteRead meta h s)) = history s @ evs
         \<and> (\<forall>e\<in>set evs. reads_back Routes e \<or> sets_id e)"
  by (auto simp: resourceArmRouteRead_def call_Routes_Get_def Let_def returns_def
           split: sum.splits option.splits prod.splits)

lemma ExtensionsRead_events:
  "\<exists>evs. history (snd (resourceArmVirtualMachineExtensionsRead meta h s)) = history s @ evs
         \<and> (\<forall>e\<in>set evs. reads_back VmExtensions e \<or> sets_id e)"
  by (auto simp: resourceArmVirtualMachineExtensionsRead_def call_Extensions_Get_def Let_def
                 returns_def panics_def
           split: sum.splits option.splits prod.splits json.splits)

lemma in_order_append: "in_order Ps A \<Longrightarrow> in_order Ps (A @ X)"
  by (induction Ps A rule: in_order.induct) auto

lemma order_after_prefix:
  assumes A: "in_order Ps A" and nq: "\<forall>e\<in>set A. \<not> Q e"
  shows "list_all (\<lambda>n. Q ((A @ B) ! n) \<longrightarrow> in_order Ps (take n (A @ B))) [0..<length (A @ B)]"
proof -
  have "in_order Ps (take n (A @ B))" if n: "n < length (A @ B)" and q: "Q ((A @ B) ! n)" for n
  proof -
    have "\<not> n < length A"
    proof
      assume "n < length A"
      then have "(A @ B) ! n \<in> set A" by (simp add: nth_append)
      with nq q show False by blast
    qed
    then have "take n (A @ B) = A @ take (n - length A) B" by simp
    with A show ?thesis by (simp add: in_order_append)
  qed
  then show ?thesis by (simp add: list_all_iff)
qed

lemma order_without_reads:
  assumes "\<forall>e\<in>set new. \<not> Q e"
  shows "list_all (\<lambda>n. Q (new ! n) \<longrightarrow> P n) [0..<length new]"
  using assms by (simp add: list_all_iff)

lemma polled_failedI:
  assumes hist: "history s' = history s @ new"
      and diags: "diags \<noteq> []"
      and rd: "res_data s' = res_data s"
      and noset: "\<forall>e\<in>set new. \<not> sets_id e"
      and order: "(\<forall>e\<in>set new. \<not> reads_back c e)
                  \<or> (\<exists>A B. new = A @ B \<and> in_order [start_succeeded c, poll_completed c] A
                        \<and> (\<forall>e\<in>set A. \<not> reads_back c e))"
  shows "polled_before_state c s (Inr diags, s')"
proof -
  have new: "new_events s (Inr diags, s') = new" by (simp add: new_events_def hist)
  have ord: "list_all (\<lambda>n. reads_back c (new ! n) \<or> sets_id (new ! n) \<longrightarrow>
                        in_order [start_succeeded c, poll_completed c] (take n new))
           [0..<length new]"
    using order
  proof
    assume "\<forall>e\<in>set new. \<not> reads_back c e"
    with noset have "\<forall>e\<in>set new. \<not> (reads_back c e \<or> sets_id e)" by blast
    then show ?thesis by (rule order_without_reads)
  next
    assume "\<exists>A B. new = A @ B \<and> in_order [start_succeeded c, poll_completed c] A
                        \<and> (\<forall>e\<in>set A. \<not> reads_back c e)"
    then obtain A B where ab: "new = A @ B" "in_order [start_succeeded c, poll_completed c] A"
      "\<forall>e\<in>set A. \<not> reads_back c e" by blast
    from ab(1,3) noset have "\<forall>e\<in>set A. \<not> (reads_back c e \<or> sets_id e)" by auto
    from order_after_prefix[OF ab(2) this, of B] show ?thesis by (simp add: ab(1))
  qed
  show ?thesis
    unfolding polled_before_state_def Let_def new
    using hist diags rd noset ord by (simp add: list_ex_iff)
qed

lemma polled_succeededI:
  assumes hist: "history s' = history s @ A @ B"
      and A: "in_order [start_succeeded c, poll_completed c] A"
      and nq: "\<forall>e\<in>set A. \<not> (reads_back c e \<or> sets_id e)"
      and nofail: "\<forall>e\<in>set (A @ B). \<not> start_failed c e \<and> \<not> poll_failed c e"
  shows "polled_before_state c s (out, s')"
proof -
  have new: "new_events s (out, s') = A @ B" by (simp add: new_events_def hist)
  show ?thesis
    unfolding polled_before_state_def Let_def new
    using hist nofail order_after_prefix[OF A nq, of B] by (simp add: list_ex_iff)
qed

lemma order_explicit_then_more:
  assumes X: "in_order Ps X"
      and ordX: "list_all (\<lambda>n. Q (X ! n) \<longrightarrow> in_order Ps (take n X)) [0..<length X]"
  shows "list_all (\<lambda>n. Q ((X @ Y) ! n) \<longrightarrow> in_order Ps (take n (X @ Y))) [0..<length (X @ Y)]"
proof -
  have "in_order Ps (take n (X @ Y))" if n: "n < length (X @ Y)" and q: "Q ((X @ Y) ! n)" for n
  proof (cases "n < length X")
    case True
    with q ordX have "in_order Ps (take n X)" by (simp add: list_all_iff nth_append)
    with True show ?thesis by simp
  next
    case False
    then have "take n (X @ Y) = X @ take (n - length X) Y" by simp
    with X show ?thesis by (simp add: in_order_append)
  qed
  then show ?thesis by (simp add: list_all_iff)
qed

lemma polled_after_ReadI:
  assumes hist: "history s' = history s @ X @ Y"
      and X: "in_order [start_succeeded c, poll_completed c] X"
      and ordX: "list_all (\<lambda>n. reads_back c (X ! n) \<or> sets_id (X ! n) \<longrightarrow>
                    in_order [start_succeeded c, poll_completed c] (take n X)) [0..<length X]"
      and nofail: "\<forall>e\<in>set (X @ Y). \<not> start_failed c e \<and> \<not> poll_failed c e"
  shows "polled_before_state c s (out, s')"
proof -
  have new: "new_events s (out, s') = X @ Y" by (simp add: new_events_def hist)
  show ?thesis
    unfolding polled_before_state_def Let_def new
    using hist nofail order_explicit_then_more[OF X ordX, of Y] by (simp add: list_ex_iff)
qed

lemma reads_or_sets_never_fail:
  "reads_back c e \<or> sets_id e \<Longrightarrow> \<not> start_failed c e \<and> \<not> poll_failed c e"
  by (cases e) auto

lemma RouteCreateUpdate_polled:
  "polled_before_state Routes s (resourceArmRouteCreateUpdate meta h s)"
proof -
  let ?name = "d_Get_string ''name'' s" and ?rt = "d_Get_string ''route_table_name'' s"
    and ?rg = "d_Get_string ''resource_group_name'' s"
  let ?L = "LockByName_called ?rt (routeTableResourceName h)"
  let ?U = "UnlockByName_called ?rt (routeTableResourceName h)"
  let ?args = "[?rg, ?rt, ?name]"
  obtain v ok where getok: "d_GetOk_string ''next_hop_in_ip_address'' (called ?L s) = (v, ok)"
    by (cases "d_GetOk_string ''next_hop_in_ip_address'' (called ?L s)")
  let ?props = "\<lparr>AddressPrefix = Some (d_Get_string ''address_prefix'' s),
                  NextHopType = d_Get_string ''next_hop_type'' s, NextHopIPAddress = None\<rparr>"
  let ?route = "\<lparr>Route_Name = Some ?name,
                  Route_Properties = Some (if ok then ?props\<lparr>NextHopIPAddress := Some v\<rparr> else ?props)\<rparr>"
  let ?e1 = "Routes_CreateOrUpdate (routesClient meta) (history s @ [?L]) ?rg ?rt ?name ?route"
  let ?C = "Called Routes CreateOrUpdate ?args"
  let ?e2 = "Routes_WaitForCompletionRef (routesClient meta) (history s @ [?L, ?C None])"
  let ?W = "Called Routes WaitForCompletionRef []"
  let ?g = "Routes_Get (routesClient meta) (history s @ [?L, ?C None, ?W None]) ?rg ?rt ?name"
  let ?G = "Called Routes Get ?args"
  note defs = resourceArmRouteCreateUpdate_def Let_def call_Routes_CreateOrUpdate_def
    call_Routes_WaitForCompletionRef_def call_Routes_Get_def deferred_def returns_def getok
    d_Get_string_def[symmetric]
  have dgs [simp]: "\<And>k e. d_Get_string k (called e s) = d_Get_string k s"
    by (simp add: d_Get_string_def called_def)
  show ?thesis
  proof (cases ?e1)
    case (Some e)
    then have "resourceArmRouteCreateUpdate meta h s
        = (Inr (diag_Errorf
             ''Error Creating/Updating Route %q (Route Table %q / Resource Group %q): %+v''
             [?name, ?rt, ?rg, e]),
           called ?U (called (?C (Some e)) (called ?L s)))"
      by (cases ok) (simp_all add: defs)
    then show ?thesis
      by (simp only:) (rule polled_failedI[where new="[?L, ?C (Some e), ?U]"], simp_all)
  next
    case e1: None
    show ?thesis
    proof (cases ?e2)
      case (Some e)
      with e1 have "resourceArmRouteCreateUpdate meta h s
          = (Inr (diag_Errorf
               ''Error waiting for completion for Route %q (Route Table %q / Resource Group %q): %+v''
               [?name, ?rt, ?rg, e]),
             called ?U (called (?W (Some e)) (called (?C None) (called ?L s))))"
        by (cases ok) (simp_all add: defs)
      then show ?thesis
        by (simp only:) (rule polled_failedI[where new="[?L, ?C None, ?W (Some e), ?U]"], simp_all)
    next
      case e2: None
      obtain read gerr where g: "?g = (read, gerr)" by (cases ?g)
      let ?s4 = "called (?G gerr) (called (?W None) (called (?C None) (called ?L s)))"
      have order4: "(\<forall>e\<in>set [?L, ?C None, ?W None, ?G gerr, ?U]. \<not> reads_back Routes e)
            \<or> (\<exists>A B. [?L, ?C None, ?W None, ?G gerr, ?U] = A @ B
                  \<and> in_order [start_succeeded Routes, poll_completed Routes] A
                  \<and> (\<forall>e\<in>set A. \<not> reads_back Routes e))"
        by (rule disjI2, rule exI[of _ "[?L, ?C None, ?W None]"], rule exI[of _ "[?G gerr, ?U]"]) simp
      show ?thesis
      proof (cases gerr)
        case (Some e)
        with e1 e2 g have "resourceArmRouteCreateUpdate meta h s
            = (Inr (diag_FromErr (Some e)), called ?U ?s4)"
          by (cases ok) (simp_all add: defs)
        then show ?thesis
          by (simp only:)
             (rule polled_failedI[where new="[?L, ?C None, ?W None, ?G gerr, ?U]", OF _ _ _ _ order4],
              simp_all add: diag_FromErr_def)
      next
        case g2: None
        show ?thesis
        proof (cases "Route_ID read")
          case None
          with e1 e2 g g2 have "resourceArmRouteCreateUpdate meta h s
              = (Inr (diag_Errorf ''Cannot read Route %q/%q (resource group %q) ID'' [?rt, ?name, ?rg]),
                 called ?U ?s4)"
            by (cases ok) (simp_all add: defs)
          then show ?thesis
            by (simp only:)
               (rule polled_failedI[where new="[?L, ?C None, ?W None, ?G gerr, ?U]", OF _ _ _ _ order4],
                simp_all)
        next
          case (Some i)
          let ?sR = "resourceArmRouteRead meta h (d_SetId i ?s4)"
          from Some e1 e2 g g2 have res: "resourceArmRouteCreateUpdate meta h s
              = (fst ?sR, called ?U (snd ?sR))"
            by (cases ok) (simp_all add: defs)
          from RouteRead_events[of meta h "d_SetId i ?s4"]
          obtain evs where evs: "history (snd ?sR) = history (d_SetId i ?s4) @ evs"
            "\<forall>e\<in>set evs. reads_back Routes e \<or> sets_id e" by blast
          have nofail: "\<forall>e\<in>set evs. \<not> start_failed Routes e \<and> \<not> poll_failed Routes e"
            using evs(2) reads_or_sets_never_fail by blast
          show ?thesis
            unfolding res
            by (rule polled_after_ReadI[where X="[?L, ?C None, ?W None, ?G gerr, SetId_called i]"
                  and Y="evs @ [?U]"])
               (use evs(1) nofail g2 in \<open>simp_all add: upt_rec\<close>)
        qed
      qed
    qed
  qed
qed

lemma ExtensionsCreate_polled:
  "polled_before_state VmExtensions s (resourceArmVirtualMachineExtensionsCreate meta h s)"
proof -
  let ?name = "d_Get_string ''name'' s" and ?vm = "d_Get_string ''virtual_machine_name'' s"
    and ?rg = "d_Get_string ''resource_group_name'' s"
  let ?args = "[?rg, ?vm, ?name]"
  let ?props0 = "\<lparr>Publisher = Some (d_Get_string ''publisher'' s),
                   Type = Some (d_Get_string ''type'' s),
                   TypeHandlerVersion = Some (d_Get_string ''type_handler_version'' s),
                   AutoUpgradeMinorVersion = Some (d_Get_bool ''auto_upgrade_minor_version'' s),
                   Settings = None, ProtectedSettings = None\<rparr>"
  let ?p1 = "if d_Get_string ''settings'' s \<noteq> []
             then map_sum (\<lambda>e. e) (\<lambda>settings. ?props0\<lparr>Settings := Some (JsonObject settings)\<rparr>)
                    (ExpandJsonFromString h (d_Get_string ''settings'' s))
             else Inr ?props0"
  note defs = resourceArmVirtualMachineExtensionsCreate_def Let_def
    call_Extensions_CreateOrUpdate_def call_Extensions_WaitForCompletionRef_def
    call_Extensions_Get_def returns_def
  show ?thesis
  proof (cases ?p1)
    case (Inl err)
    then have "resourceArmVirtualMachineExtensionsCreate meta h s
        = (Inr (diag_Errorf ''unable to parse settings: %s'' [err]), s)"
      by (simp add: defs)
    then show ?thesis
      by (simp only:) (rule polled_failedI[where new="[]"], simp_all)
  next
    case p1: (Inr props1)
    let ?p2 = "if d_Get_string ''protected_settings'' s \<noteq> []
               then map_sum (\<lambda>e. e)
                      (\<lambda>protectedSettings.
                          props1\<lparr>ProtectedSettings := Some (JsonObject protectedSettings)\<rparr>)
                      (ExpandJsonFromString h (d_Get_string ''protected_settings'' s))
               else Inr props1"
    show ?thesis
    proof (cases ?p2)
      case (Inl err)
      with p1 have "resourceArmVirtualMachineExtensionsCreate meta h s
          = (Inr (diag_Errorf ''unable to parse protected_settings: %s'' [err]), s)"
        by (simp add: defs)
      then show ?thesis
        by (simp only:) (rule polled_failedI[where new="[]"], simp_all)
    next
      case p2: (Inr props2)
      let ?extension = "\<lparr>Extension_Response = None, Extension_ID = None, Extension_Name = None,
            Extension_Location = Some (azureStackNormalizeLocation h (d_Get_string ''location'' s)),
            Extension_Tags = expandTags h (res_data s), Extension_Properties = Some props2\<rparr>"
      let ?e1 = "Extensions_CreateOrUpdate (vmExtensionClient meta) (history s) ?rg ?vm ?name ?extension"
      let ?C = "Called VmExtensions CreateOrUpdate ?args"
      let ?e2 = "Extensions_WaitForCompletionRef (vmExtensionClient meta) (history s @ [?C None])"
      let ?W = "Called VmExtensions WaitForCompletionRef []"
      let ?g = "Extensions_Get (vmExtensionClient meta) (history s @ [?C None, ?W None]) ?rg ?vm ?name"
      let ?G = "Called VmExtensions Get ?args"
      show ?thesis
      proof (cases ?e1)
        case (Some e)
        with p1 p2 have "resourceArmVirtualMachineExtensionsCreate meta h s
            = (Inr (diag_FromErr (Some e)), called (?C (Some e)) s)"
          by (simp add: defs)
        then show ?thesis
          by (simp only:)
             (rule polled_failedI[where new="[?C (Some e)]"], simp_all add: diag_FromErr_def)
      next
        case e1: None
        show ?thesis
        proof (cases ?e2)
          case (Some e)
          with p1 p2 e1 have "resourceArmVirtualMachineExtensionsCreate meta h s
              = (Inr (diag_FromErr (Some e)), called (?W (Some e)) (called (?C None) s))"
            by (simp add: defs)
          then show ?thesis
            by (simp only:)
               (rule polled_failedI[where new="[?C None, ?W (Some e)]"],
                simp_all add: diag_FromErr_def)
        next
          case e2: None
          obtain read gerr where g: "?g = (read, gerr)" by (cases ?g)
          let ?s4 = "called (?G gerr) (called (?W None) (called (?C None) s))"
          have order4: "(\<forall>e\<in>set [?C None, ?W None, ?G gerr]. \<not> reads_back VmExtensions e)
                \<or> (\<exists>A B. [?C None, ?W None, ?G gerr] = A @ B
                      \<and> in_order [start_succeeded VmExtensions, poll_completed VmExtensions] A
                      \<and> (\<forall>e\<in>set A. \<not> reads_back VmExtensions e))"
            by (rule disjI2, rule exI[of _ "[?C None, ?W None]"], rule exI[of _ "[?G gerr]"]) simp
          show ?thesis
          proof (cases gerr)
            case (Some e)
            with p1 p2 e1 e2 g have "resourceArmVirtualMachineExtensionsCreate meta h s
                = (Inr (diag_FromErr (Some e)), ?s4)"
              by (simp add: defs)
            then show ?thesis
              by (simp only:)
                 (rule polled_failedI[where new="[?C None, ?W None, ?G gerr]", OF _ _ _ _ order4],
                  simp_all add: diag_FromErr_def)
          next
            case g2: None
            show ?thesis
            proof (cases "Extension_ID read")
              case None
              with p1 p2 e1 e2 g g2 have "resourceArmVirtualMachineExtensionsCreate meta h s
                  = (Inr (diag_Errorf
                       ''Cannot read  Virtual Machine Extension %s (resource group %s) ID''
                       [?name, ?rg]), ?s4)"
                by (simp add: defs)
              then show ?thesis
                by (simp only:)
                   (rule polled_failedI[where new="[?C None, ?W None, ?G gerr]", OF _ _ _ _ order4],
                    simp_all)
            next
              case (Some i)
              let ?sR = "resourceArmVirtualMachineExtensionsRead meta h (d_SetId i ?s4)"
              from Some p1 p2 e1 e2 g g2
              have res: "resourceArmVirtualMachineExtensionsCreate meta h s = ?sR"
                by (simp add: defs)
              from ExtensionsRead_events[of meta h "d_SetId i ?s4"]
              obtain evs where evs: "history (snd ?sR) = history (d_SetId i ?s4) @ evs"
                "\<forall>e\<in>set evs. reads_back VmExtensions e \<or> sets_id e" by blast
              have nofail: "\<forall>e\<in>set evs. \<not> start_failed VmExtensions e \<and> \<not> poll_failed VmExtensions e"
                using evs(2) reads_or_sets_never_fail by blast
              have "polled_before_state VmExtensions s (fst ?sR, snd ?sR)"
                by (rule polled_after_ReadI[where X="[?C None, ?W None, ?G gerr, SetId_called i]"
                      and Y="evs"])
                   (use evs(1) nofail g2 in \<open>simp_all add: upt_rec\<close>)
              then show ?thesis unfolding res by simp
            qed
          qed
        qed
      qed
    qed
  qed
qed

text \<open>
  C4. Route create/update and virtual machine extension create: the operation only
  reads the resource back and sets the resource ID after the long-running operation was
  started successfully and its poll ran to completion; and if starting the operation
  or polling it fails, error diagnostics are returned, the resource data is left as it
  was and the resource ID is never set in that call.
\<close>

theorem long_running_operations_polled_before_state:
  "polled_before_state Routes s (resourceArmRouteCreateUpdate meta h s)
   \<and> polled_before_state VmExtensions s (resourceArmVirtualMachineExtensionsCreate meta h s)"
  by (simp add: RouteCreateUpdate_polled ExtensionsCreate_polled)

lemmas example_eval =
  example_meta_def example_helpers_def example_session_def example_lb_def example_pool_def
  d_Get_string_def d_Get_bool_def d_GetOk_string_def d_Id_def d_SetId_def d_Set_def
  d_Set_unchecked_def call_flattenAndSetTags_def called_def deferred_def returns_def panics_def
  path_def deref_def diag_Errorf_def diag_FromErr_def new_events_def Let_def

theorem long_running_operations_polled_before_state_witness:
  "new_events example_session
      (resourceArmRouteCreateUpdate (example_meta 200 None None (Some ''timeout''))
         example_helpers example_session)
     = [LockByName_called ''rt1'' ''azurestack_route_table'',
        Called Routes CreateOrUpdate [''rg1'', ''rt1'', ''pool1''] None,
        Called Routes WaitForCompletionRef [] (Some ''timeout''),
        UnlockByName_called ''rt1'' ''azurestack_route_table'']
   \<and> fst (resourceArmRouteCreateUpdate (example_meta 200 None None (Some ''timeout''))
         example_helpers example_session)
     = Inr [Diagnostic
        ''Error waiting for completion for Route %q (Route Table %q / Resource Group %q): %+v''
        [''pool1'', ''rt1'', ''rg1'', ''timeout'']]
   \<and> res_data (snd (resourceArmRouteCreateUpdate (example_meta 200 None None (Some ''timeout''))
         example_helpers example_session))
     = res_data example_session
   \<and> new_events example_session
      (resourceArmVirtualMachineExtensionsCreate (example_meta 200 None None None)
         example_helpers example_session)
     = [Called VmExtensions CreateOrUpdate [''rg1'', ''vm1'', ''pool1''] None,
        Called VmExtensions WaitForCompletionRef [] None,
        Called VmExtensions Get [''rg1'', ''vm1'', ''pool1''] None,
        SetId_called ''/vm1/extensions/ext1'',
        Called VmExtensions Get [''rg1'', ''vm1'', ''ext1''] None]"
  using long_running_operations_polled_before_state
          [of example_session "example_meta 200 None None (Some ''timeout'')" example_helpers]
        long_running_operations_polled_before_state
          [of example_session "example_meta 200 None None None" example_helpers]
  by (simp add: example_eval resourceArmRouteCreateUpdate_def
        resourceArmVirtualMachineExtensionsCreate_def resourceArmVirtualMachineExtensionsRead_def
        call_Routes_CreateOrUpdate_def call_Routes_WaitForCompletionRef_def
        call_Extensions_CreateOrUpdate_def call_Extensions_WaitForCompletionRef_def
        call_Extensions_Get_def)

section \<open>Properties of the backend address pool operations\<close>

lemma findPool_loop_first:
  "findPool_loop pools name k =
     (case dropWhile (\<lambda>p. Pool_Name p \<noteq> Some name) pools of
        [] \<Rightarrow> (None, - 1, False)
      | p # rest \<Rightarrow> (Some p, k + int (length (takeWhile (\<lambda>p. Pool_Name p \<noteq> Some name) pools)), True))"
proof (induction pools arbitrary: k)
  case Nil
  show ?case by simp
next
  case (Cons a pools)
  show ?case
  proof (cases "Pool_Name a = Some name")
    case True
    then show ?thesis by simp
  next
    case False
    then show ?thesis
      by (cases "dropWhile (\<lambda>p. Pool_Name p \<noteq> Some name) pools") (simp_all add: Cons.IH del: dropWhile_eq_Nil_conv)
  qed
qed

lemma dropWhile_named_hd:
  "dropWhile (\<lambda>p. Pool_Name p \<noteq> Some name) pools = p # rest \<Longrightarrow> Pool_Name p = Some name"
  by (metis (mono_tags, lifting) hd_dropWhile list.sel(1) list.simps(3))

lemma remove_at_first:
  assumes "dropWhile P xs = p # rest"
  shows "remove_at (int (length (takeWhile P xs))) (xs @ ys) = Inr (takeWhile P xs @ rest @ ys)"
    and "remove_at (int (length (takeWhile P xs))) xs = Inr (takeWhile P xs @ rest)"
proof -
  let ?i = "length (takeWhile P xs)"
  have xs: "xs = takeWhile P xs @ p # rest" using assms by (metis takeWhile_dropWhile_id)
  then have len: "length xs = ?i + Suc (length rest)" by (metis length_append length_Cons)
  have t: "take ?i xs = takeWhile P xs" by (metis append_eq_conv_conj xs)
  have d: "drop (Suc ?i) xs = rest"
    by (metis xs append_eq_conv_conj drop_Suc tl_drop list.sel(3))
  show "remove_at (int ?i) xs = Inr (takeWhile P xs @ rest)"
    using len t d by (simp add: remove_at_def)
  show "remove_at (int ?i) (xs @ ys) = Inr (takeWhile P xs @ rest @ ys)"
    using len t d by (simp add: remove_at_def)
qed


lemma PoolRead_sends_nothing [simp]:
  "filter is_sent (history (snd (resourceArmLoadBalancerBackendAddressPoolRead meta h s)))
     = filter is_sent (history s)"
  by (simp add: resourceArmLoadBalancerBackendAddressPoolRead_def call_retrieveLoadBalancerById_def
         Let_def returns_def panics_def
       split: sum.split option.split prod.split)

lemma filter_sent_deferred [simp]:
  "filter is_sent (history (snd (deferred (called e) r)))
     = filter is_sent (history (snd r)) @ (if is_sent e then [e] else [])"
  by (simp add: deferred_def)

lemma d_Get_string_called [simp]: "d_Get_string k (called e s) = d_Get_string k s"
  by (simp add: d_Get_string_def called_def)

lemma PoolCreate_afterSend_sends_nothing [simp]:
  "filter is_sent (history (snd (resourceArmLoadBalancerBackendAddressPoolCreate_afterSend
       meta h name resGroup lbName s)))
     = filter is_sent (history s)"
  by (simp add: resourceArmLoadBalancerBackendAddressPoolCreate_afterSend_def Let_def
        call_LoadBalancers_WaitForCompletionRef_def call_LoadBalancers_Get_def
        call_LoadBalancers_WaitForState_def returns_def panics_def
      split: option.split sum.split prod.split)

lemma PoolDelete_afterSend_sends_nothing [simp]:
  "filter is_sent (history (snd (resourceArmLoadBalancerBackendAddressPoolDelete_afterSend
       meta resGroup lbName s)))
     = filter is_sent (history s)"
  by (simp add: resourceArmLoadBalancerBackendAddressPoolDelete_afterSend_def Let_def
        call_LoadBalancers_WaitForCompletionRef_def call_LoadBalancers_Get_def
        returns_def
      split: option.split sum.split prod.split)

lemma PoolCreate_sends:
  assumes retrieved: "retrieveLoadBalancerById h
            (history s @ [Lock_called (d_Get_string ''loadbalancer_id'' s)])
            (d_Get_string ''loadbalancer_id'' s) = (Some lb, True, None)"
      and props: "LoadBalancer_Properties lb = Some props"
      and pools: "BackendAddressPools props = Some pools"
      and parsed: "resourceGroupAndLBNameFromId h (d_Get_string ''loadbalancer_id'' s)
                     = Inr (resGroup, lbName)"
  shows "\<exists>err. filter is_sent (history (snd (resourceArmLoadBalancerBackendAddressPoolCreate meta h s)))
           = filter is_sent (history s)
             @ [LoadBalancer_sent resGroup lbName
                  (lb\<lparr>LoadBalancer_Properties := Some (props\<lparr>BackendAddressPools :=
                       Some (takeWhile (\<lambda>p. Pool_Name p \<noteq> Some (d_Get_string ''name'' s)) pools
                             @ tl (dropWhile (\<lambda>p. Pool_Name p \<noteq> Some (d_Get_string ''name'' s)) pools)
                             @ [\<lparr>Pool_ID = None, Pool_Name = Some (d_Get_string ''name'' s),
                                 Pool_Etag = None, Pool_Properties = None\<rparr>])\<rparr>)\<rparr>)
                  err]"
proof -
  let ?N = "\<lambda>p. Pool_Name p \<noteq> Some (d_Get_string ''name'' s)"
  let ?id = "d_Get_string ''loadbalancer_id'' s"
  let ?lb' = "lb\<lparr>LoadBalancer_Properties := Some (props\<lparr>BackendAddressPools :=
                       Some (takeWhile ?N pools @ tl (dropWhile ?N pools)
                             @ [\<lparr>Pool_ID = None, Pool_Name = Some (d_Get_string ''name'' s),
                                 Pool_Etag = None, Pool_Properties = None\<rparr>])\<rparr>)\<rparr>"
  let ?err = "LoadBalancers_CreateOrUpdate (loadBalancerClient meta)
                (history s @ [Lock_called ?id, LoadBalancer_retrieved ?id (Some lb) True None])
                resGroup lbName ?lb'"
  have dp: "deref_pools (Some lb) = Inr (lb, props, pools)"
    by (simp add: deref_pools_def deref_def props pools)
  have find: "findLoadBalancerBackEndAddressPoolByName (Some lb) (d_Get_string ''name'' s)
     = (case dropWhile ?N pools of
          [] \<Rightarrow> (None, - 1, False)
        | p # rest \<Rightarrow> (Some p, int (length (takeWhile ?N pools)), True))"
    by (cases "dropWhile ?N pools")
       (simp_all add: findLoadBalancerBackEndAddressPoolByName_def props pools findPool_loop_first
          del: dropWhile_eq_Nil_conv)
  note defs = resourceArmLoadBalancerBackendAddressPoolCreate_def Let_def
    call_retrieveLoadBalancerById_def retrieved dp find parsed
    expandAzureRmLoadBalancerBackendAddressPools_def call_LoadBalancers_CreateOrUpdate_def
    returns_def panics_def deref_def
  show ?thesis
  proof (cases "dropWhile ?N pools")
    case Nil
    then have tw: "takeWhile ?N pools = pools"
      by (metis append_Nil2 takeWhile_dropWhile_id)
    show ?thesis
      by (rule exI[of _ ?err])
         (cases ?err; simp add: defs Nil tw del: dropWhile_eq_Nil_conv)
  next
    case (Cons p rest)
    from dropWhile_named_hd[OF Cons] have pn: "Pool_Name p = Some (d_Get_string ''name'' s)" .
    show ?thesis
      by (rule exI[of _ ?err])
         (cases ?err; simp add: defs Cons pn remove_at_first(1)[OF Cons]
            del: dropWhile_eq_Nil_conv dropWhile_eq_Cons_conv)
  qed
qed

lemma PoolDelete_sends:
  assumes retrieved: "retrieveLoadBalancerById h
            (history s @ [Lock_called (d_Get_string ''loadbalancer_id'' s)])
            (d_Get_string ''loadbalancer_id'' s) = (Some lb, True, None)"
      and props: "LoadBalancer_Properties lb = Some props"
      and pools: "BackendAddressPools props = Some pools"
      and parsed: "resourceGroupAndLBNameFromId h (d_Get_string ''loadbalancer_id'' s)
                     = Inr (resGroup, lbName)"
  shows "\<exists>err. filter is_sent (history (snd (resourceArmLoadBalancerBackendAddressPoolDelete meta h s)))
           = filter is_sent (history s)
             @ (if \<exists>p\<in>set pools. Pool_Name p = Some (d_Get_string ''name'' s)
                then [LoadBalancer_sent resGroup lbName
                  (lb\<lparr>LoadBalancer_Properties := Some (props\<lparr>BackendAddressPools :=
                       Some (takeWhile (\<lambda>p. Pool_Name p \<noteq> Some (d_Get_string ''name'' s)) pools
                             @ tl (dropWhile (\<lambda>p. Pool_Name p \<noteq> Some (d_Get_string ''name'' s)) pools))\<rparr>)\<rparr>)
                  err]
                else [])"
proof -
  let ?N = "\<lambda>p. Pool_Name p \<noteq> Some (d_Get_string ''name'' s)"
  let ?id = "d_Get_string ''loadbalancer_id'' s"
  let ?lb' = "lb\<lparr>LoadBalancer_Properties := Some (props\<lparr>BackendAddressPools :=
                       Some (takeWhile ?N pools @ tl (dropWhile ?N pools))\<rparr>)\<rparr>"
  let ?err = "LoadBalancers_CreateOrUpdate (loadBalancerClient meta)
                (history s @ [Lock_called ?id, LoadBalancer_retrieved ?id (Some lb) True None])
                resGroup lbName ?lb'"
  have dp: "deref_pools (Some lb) = Inr (lb, props, pools)"
    by (simp add: deref_pools_def deref_def props pools)
  have find: "findLoadBalancerBackEndAddressPoolByName (Some lb) (d_Get_string ''name'' s)
     = (case dropWhile ?N pools of
          [] \<Rightarrow> (None, - 1, False)
        | p # rest \<Rightarrow> (Some p, int (length (takeWhile ?N pools)), True))"
    by (cases "dropWhile ?N pools")
       (simp_all add: findLoadBalancerBackEndAddressPoolByName_def props pools findPool_loop_first
          del: dropWhile_eq_Nil_conv)
  note defs = resourceArmLoadBalancerBackendAddressPoolDelete_def Let_def
    call_retrieveLoadBalancerById_def retrieved dp find parsed
    call_LoadBalancers_CreateOrUpdate_def returns_def panics_def deref_def
  show ?thesis
  proof (cases "dropWhile ?N pools")
    case Nil
    then have none: "\<not> (\<exists>p\<in>set pools. Pool_Name p = Some (d_Get_string ''name'' s))"
      by simp
    show ?thesis
      by (rule exI[of _ ?err]) (simp add: defs Nil none del: dropWhile_eq_Nil_conv)
  next
    case (Cons p rest)
    then have some: "\<exists>p\<in>set pools. Pool_Name p = Some (d_Get_string ''name'' s)"
      using dropWhile_eq_Nil_conv[of ?N pools] by (simp del: dropWhile_eq_Nil_conv dropWhile_eq_Cons_conv)
    show ?thesis
      by (rule exI[of _ ?err])
         (cases ?err; simp add: defs Cons some remove_at_first(2)[OF Cons]
            del: dropWhile_eq_Nil_conv dropWhile_eq_Cons_conv)
  qed
qed

lemma filter_without_first:
  "filter P (takeWhile (\<lambda>x. \<not> P x) xs @ tl (dropWhile (\<lambda>x. \<not> P x) xs)) = tl (filter P xs)"
  by (induction xs) auto

lemma first_named_index:
  assumes "findLoadBalancerBackEndAddressPoolByName (Some lb) name = (Some p, i, True)"
      and "LoadBalancer_Properties lb = Some props"
      and "BackendAddressPools props = Some pools"
  shows "0 \<le> i \<and> nat i < length pools \<and> pools ! nat i = p \<and> Pool_Name p = Some name
         \<and> takeWhile (\<lambda>q. Pool_Name q \<noteq> Some name) pools = take (nat i) pools
         \<and> tl (dropWhile (\<lambda>q. Pool_Name q \<noteq> Some name) pools) = drop (Suc (nat i)) pools"
proof -
  let ?N = "\<lambda>q. Pool_Name q \<noteq> Some name"
  from assms have f: "findPool_loop pools name 0 = (Some p, i, True)"
    by (simp add: findLoadBalancerBackEndAddressPoolByName_def)
  then obtain rest where dw: "dropWhile ?N pools = p # rest"
    and i: "i = int (length (takeWhile ?N pools))"
    by (cases "dropWhile ?N pools")
       (simp_all add: findPool_loop_first del: dropWhile_eq_Nil_conv dropWhile_eq_Cons_conv)
  have xs: "pools = takeWhile ?N pools @ p # rest"
    using dw by (metis takeWhile_dropWhile_id)
  have t: "take (nat i) pools = takeWhile ?N pools"
    unfolding i by (metis append_eq_conv_conj nat_int xs)
  have d: "drop (Suc (nat i)) pools = rest"
    unfolding i by (metis xs append_eq_conv_conj drop_Suc tl_drop list.sel(3) nat_int)
  have len: "nat i < length pools"
    using arg_cong[OF xs, of length] unfolding i by simp
  have nth: "pools ! nat i = p"
    using arg_cong[OF xs, of "\<lambda>l. l ! length (takeWhile ?N pools)"] unfolding i
    by (simp del: dropWhile_eq_Nil_conv dropWhile_eq_Cons_conv)
  from dropWhile_named_hd[OF dw] have "Pool_Name p = Some name" .
  with t d len nth dw i show ?thesis by simp
qed

text \<open>
  C8. When the parent load balancer is retrieved with its list of backend address pools,
  the update that Create sends is the retrieved load balancer with only that list
  changed: the first pool of the configured name, if any, is removed and a new pool of
  that name is appended, so that exactly one pool has the name when at most one had it
  before. The update that Delete sends is the retrieved load balancer with only that
  list changed, the pool at the index found by name being removed; Delete sends nothing
  when no pool has the name. Each operation sends at most this one update, and every
  other field of the load balancer and of its properties is passed through.
\<close>

theorem backend_address_pool_frames_load_balancer:
  assumes retrieved: "retrieveLoadBalancerById h
            (history s @ [Lock_called (d_Get_string ''loadbalancer_id'' s)])
            (d_Get_string ''loadbalancer_id'' s) = (Some lb, True, None)"
      and props: "LoadBalancer_Properties lb = Some props"
      and pools: "BackendAddressPools props = Some pools"
      and parsed: "resourceGroupAndLBNameFromId h (d_Get_string ''loadbalancer_id'' s)
                     = Inr (resGroup, lbName)"
  shows
    "(\<exists>err. filter is_sent (history (snd (resourceArmLoadBalancerBackendAddressPoolCreate meta h s)))
         = filter is_sent (history s)
           @ [LoadBalancer_sent resGroup lbName
                (lb\<lparr>LoadBalancer_Properties := Some (props\<lparr>BackendAddressPools :=
                     Some (takeWhile (\<lambda>p. Pool_Name p \<noteq> Some (d_Get_string ''name'' s)) pools
                           @ tl (dropWhile (\<lambda>p. Pool_Name p \<noteq> Some (d_Get_string ''name'' s)) pools)
                           @ [\<lparr>Pool_ID = None, Pool_Name = Some (d_Get_string ''name'' s),
                               Pool_Etag = None, Pool_Properties = None\<rparr>])\<rparr>)\<rparr>)
                err])
   \<and> (length (filter (\<lambda>p. Pool_Name p = Some (d_Get_string ''name'' s)) pools) \<le> 1 \<longrightarrow>
        length (filter (\<lambda>p. Pool_Name p = Some (d_Get_string ''name'' s))
                  (takeWhile (\<lambda>p. Pool_Name p \<noteq> Some (d_Get_string ''name'' s)) pools
                   @ tl (dropWhile (\<lambda>p. Pool_Name p \<noteq> Some (d_Get_string ''name'' s)) pools)
                   @ [\<lparr>Pool_ID = None, Pool_Name = Some (d_Get_string ''name'' s),
                       Pool_Etag = None, Pool_Properties = None\<rparr>])) = 1)
   \<and> (\<exists>err. filter is_sent (history (snd (resourceArmLoadBalancerBackendAddressPoolDelete meta h s)))
         = filter is_sent (history s)
           @ (if \<exists>p\<in>set pools. Pool_Name p = Some (d_Get_string ''name'' s)
              then [LoadBalancer_sent resGroup lbName
                (lb\<lparr>LoadBalancer_Properties := Some (props\<lparr>BackendAddressPools :=
                     Some (takeWhile (\<lambda>p. Pool_Name p \<noteq> Some (d_Get_string ''name'' s)) pools
                           @ tl (dropWhile (\<lambda>p. Pool_Name p \<noteq> Some (d_Get_string ''name'' s)) pools))\<rparr>)\<rparr>)
                err]
              else []))
   \<and> (\<forall>p i. findLoadBalancerBackEndAddressPoolByName (Some lb) (d_Get_string ''name'' s)
                = (Some p, i, True) \<longrightarrow>
          0 \<le> i \<and> nat i < length pools \<and> pools ! nat i = p
        \<and> Pool_Name p = Some (d_Get_string ''name'' s)
        \<and> takeWhile (\<lambda>q. Pool_Name q \<noteq> Some (d_Get_string ''name'' s)) pools = take (nat i) pools
        \<and> tl (dropWhile (\<lambda>q. Pool_Name q \<noteq> Some (d_Get_string ''name'' s)) pools)
            = drop (Suc (nat i)) pools)"
proof (intro conjI)
  show "\<exists>err. filter is_sent (history (snd (resourceArmLoadBalancerBackendAddressPoolCreate meta h s)))
         = filter is_sent (history s)
           @ [LoadBalancer_sent resGroup lbName
                (lb\<lparr>LoadBalancer_Properties := Some (props\<lparr>BackendAddressPools :=
                     Some (takeWhile (\<lambda>p. Pool_Name p \<noteq> Some (d_Get_string ''name'' s)) pools
                           @ tl (dropWhile (\<lambda>p. Pool_Name p \<noteq> Some (d_Get_string ''name'' s)) pools)
                           @ [\<lparr>Pool_ID = None, Pool_Name = Some (d_Get_string ''name'' s),
                               Pool_Etag = None, Pool_Properties = None\<rparr>])\<rparr>)\<rparr>)
                err]"
    by (rule PoolCreate_sends[OF retrieved props pools parsed])
next
  let ?P = "\<lambda>p. Pool_Name p = Some (d_Get_string ''name'' s)"
  have "filter ?P (takeWhile (\<lambda>p. \<not> ?P p) pools @ tl (dropWhile (\<lambda>p. \<not> ?P p) pools))
          = tl (filter ?P pools)"
    by (rule filter_without_first)
  then show "length (filter ?P pools) \<le> 1 \<longrightarrow>
        length (filter ?P
                  (takeWhile (\<lambda>p. Pool_Name p \<noteq> Some (d_Get_string ''name'' s)) pools
                   @ tl (dropWhile (\<lambda>p. Pool_Name p \<noteq> Some (d_Get_string ''name'' s)) pools)
                   @ [\<lparr>Pool_ID = None, Pool_Name = Some (d_Get_string ''name'' s),
                       Pool_Etag = None, Pool_Properties = None\<rparr>])) = 1"
    by (cases "filter ?P pools") (simp_all del: dropWhile_eq_Nil_conv)
next
  show "\<exists>err. filter is_sent (history (snd (resourceArmLoadBalancerBackendAddressPoolDelete meta h s)))
         = filter is_sent (history s)
           @ (if \<exists>p\<in>set pools. Pool_Name p = Some (d_Get_string ''name'' s)
              then [LoadBalancer_sent resGroup lbName
                (lb\<lparr>LoadBalancer_Properties := Some (props\<lparr>BackendAddressPools :=
                     Some (takeWhile (\<lambda>p. Pool_Name p \<noteq> Some (d_Get_string ''name'' s)) pools
                           @ tl (dropWhile (\<lambda>p. Pool_Name p \<noteq> Some (d_Get_string ''name'' s)) pools))\<rparr>)\<rparr>)
                err]
              else [])"
    by (rule PoolDelete_sends[OF retrieved props pools parsed])
next
  show "\<forall>p i. findLoadBalancerBackEndAddressPoolByName (Some lb) (d_Get_string ''name'' s)
                = (Some p, i, True) \<longrightarrow>
          0 \<le> i \<and> nat i < length pools \<and> pools ! nat i = p
        \<and> Pool_Name p = Some (d_Get_string ''name'' s)
        \<and> takeWhile (\<lambda>q. Pool_Name q \<noteq> Some (d_Get_string ''name'' s)) pools = take (nat i) pools
        \<and> tl (dropWhile (\<lambda>q. Pool_Name q \<noteq> Some (d_Get_string ''name'' s)) pools)
            = drop (Suc (nat i)) pools"
    using first_named_index[OF _ props pools] by blast
qed

theorem backend_address_pool_frames_load_balancer_witness:
  "(\<exists>err. filter is_sent (history (snd (resourceArmLoadBalancerBackendAddressPoolCreate
              (example_meta 200 None None None) example_helpers example_session)))
      = [LoadBalancer_sent ''rg1'' ''lb1''
           ((example_lb 200)\<lparr>LoadBalancer_Properties :=
              Some \<lparr>FrontendIPConfigurations = Some [''fe1''],
                    BackendAddressPools =
                      Some [example_pool ''pool0'',
                            \<lparr>Pool_ID = None, Pool_Name = Some ''pool1'', Pool_Etag = None,
                              Pool_Properties = None\<rparr>],
                    LoadBalancer_LoadBalancingRules = Some [''rule1''], Probes = None,
                    InboundNatRules = Some [], ProvisioningState = Some ''Succeeded''\<rparr>\<rparr>)
           err])
   \<and> (\<exists>err. filter is_sent (history (snd (resourceArmLoadBalancerBackendAddressPoolDelete
              (example_meta 200 None None None) example_helpers example_session)))
      = [LoadBalancer_sent ''rg1'' ''lb1''
           ((example_lb 200)\<lparr>LoadBalancer_Properties :=
              Some \<lparr>FrontendIPConfigurations = Some [''fe1''],
                    BackendAddressPools = Some [example_pool ''pool0''],
                    LoadBalancer_LoadBalancingRules = Some [''rule1''], Probes = None,
                    InboundNatRules = Some [], ProvisioningState = Some ''Succeeded''\<rparr>\<rparr>)
           err])
   \<and> length (filter (\<lambda>p. Pool_Name p = Some ''pool1'')
               [example_pool ''pool0'', example_pool ''pool1'']) \<le> 1"
proof -
  let ?props = "\<lparr>FrontendIPConfigurations = Some [''fe1''],
              BackendAddressPools = Some [example_pool ''pool0'', example_pool ''pool1''],
              LoadBalancer_LoadBalancingRules = Some [''rule1''], Probes = None,
              InboundNatRules = Some [], ProvisioningState = Some ''Succeeded''\<rparr>"
  have name: "d_Get_string ''name'' example_session = ''pool1''"
    and lbid: "d_Get_string ''loadbalancer_id'' example_session = ''/lb1''"
    by (simp_all add: d_Get_string_def example_session_def)
  have retrieved: "retrieveLoadBalancerById example_helpers
            (history example_session @ [Lock_called (d_Get_string ''loadbalancer_id'' example_session)])
            (d_Get_string ''loadbalancer_id'' example_session) = (Some (example_lb 200), True, None)"
    by (simp add: example_helpers_def)
  have props: "LoadBalancer_Properties (example_lb 200) = Some ?props"
    by (simp add: example_lb_def)
  have pools: "BackendAddressPools ?props = Some [example_pool ''pool0'', example_pool ''pool1'']"
    by simp
  have parsed: "resourceGroupAndLBNameFromId example_helpers
                  (d_Get_string ''loadbalancer_id'' example_session) = Inr (''rg1'', ''lb1'')"
    by (simp add: example_helpers_def)
  have hist: "history example_session = []"
    by (simp add: example_session_def)
  have names: "Pool_Name (example_pool ''pool0'') \<noteq> Some ''pool1''"
    "Pool_Name (example_pool ''pool1'') = Some ''pool1''"
    by (simp_all add: example_pool_def)
  from backend_address_pool_frames_load_balancer
         [OF retrieved props pools parsed, of "example_meta 200 None None None"]
  show ?thesis
    by (simp add: name hist names)
qed

section \<open>Properties of \<open>base64Encode\<close>\<close>

lemma length_encodeStd: "length encodeStd = 64"
  by (simp add: encodeStd_def)

lemma decodeMap_padChar: "decodeMap padChar = None"
  by (simp add: decodeMap_def padChar_def encodeStd_def upt_rec)

lemma padChar_not_newline: "\<not> is_newline padChar"
  by (simp add: is_newline_def padChar_def)

lemma Decode_value_more:
  assumes "decodeMap c = Some out" and "length dbuf \<noteq> 3"
  shows "Decode dbuf (c # src) = Decode (dbuf @ [out]) src"
  using assms by simp

lemma Decode_value_last:
  assumes "decodeMap c = Some out" and "length dbuf = 3"
  shows "Decode dbuf (c # src) =
           (case Decode [] src of
              Inl e \<Rightarrow> Inl e
            | Inr bytes \<Rightarrow> Inr (quantum_bytes (dbuf @ [out]) @ bytes))"
  using assms by simp

lemma Decode_pad_after_3:
  assumes "length dbuf = 3"
  shows "Decode dbuf [padChar] = Inr (quantum_bytes dbuf)"
  using assms by (simp add: decodeMap_padChar padChar_not_newline)

lemma Decode_pad_after_2:
  assumes "length dbuf = 2"
  shows "Decode dbuf [padChar, padChar] = Inr (quantum_bytes dbuf)"
  using assms by (simp add: decodeMap_padChar padChar_not_newline)

lemma Decode_quantum:
  assumes "decodeMap c0 = Some v0" "decodeMap c1 = Some v1" "decodeMap c2 = Some v2"
    "decodeMap c3 = Some v3"
  shows "Decode [] (c0 # c1 # c2 # c3 # src) =
           (case Decode [] src of
              Inl e \<Rightarrow> Inl e
            | Inr bytes \<Rightarrow> Inr (quantum_bytes [v0, v1, v2, v3] @ bytes))"
proof -
  have "Decode [] (c0 # c1 # c2 # c3 # src) = Decode [v0] (c1 # c2 # c3 # src)"
    using Decode_value_more[OF assms(1), of "[]"] by simp
  also have "\<dots> = Decode [v0, v1] (c2 # c3 # src)"
    using Decode_value_more[OF assms(2), of "[v0]"] by simp
  also have "\<dots> = Decode [v0, v1, v2] (c3 # src)"
    using Decode_value_more[OF assms(3), of "[v0, v1]"] by simp
  also have "\<dots> = (case Decode [] src of
              Inl e \<Rightarrow> Inl e
            | Inr bytes \<Rightarrow> Inr (quantum_bytes [v0, v1, v2, v3] @ bytes))"
    using Decode_value_last[OF assms(4), of "[v0, v1, v2]" src]
    by (simp del: Decode.simps cong: sum.case_cong)
  finally show ?thesis .
qed

lemma Decode_padded_1:
  assumes "decodeMap c0 = Some v0" "decodeMap c1 = Some v1" "decodeMap c2 = Some v2"
  shows "Decode [] [c0, c1, c2, padChar] = Inr (quantum_bytes [v0, v1, v2])"
proof -
  have "Decode [] [c0, c1, c2, padChar] = Decode [v0] [c1, c2, padChar]"
    using Decode_value_more[OF assms(1), of "[]"] by simp
  also have "\<dots> = Decode [v0, v1] [c2, padChar]"
    using Decode_value_more[OF assms(2), of "[v0]"] by simp
  also have "\<dots> = Decode [v0, v1, v2] [padChar]"
    using Decode_value_more[OF assms(3), of "[v0, v1]"] by simp
  also have "\<dots> = Inr (quantum_bytes [v0, v1, v2])"
    by (rule Decode_pad_after_3) simp
  finally show ?thesis .
qed

lemma Decode_padded_2:
  assumes "decodeMap c0 = Some v0" "decodeMap c1 = Some v1"
  shows "Decode [] [c0, c1, padChar, padChar] = Inr (quantum_bytes [v0, v1])"
proof -
  have "Decode [] [c0, c1, padChar, padChar] = Decode [v0] [c1, padChar, padChar]"
    using Decode_value_more[OF assms(1), of "[]"] by simp
  also have "\<dots> = Decode [v0, v1] [padChar, padChar]"
    using Decode_value_more[OF assms(2), of "[v0]"] by simp
  also have "\<dots> = Inr (quantum_bytes [v0, v1])"
    by (rule Decode_pad_after_2) simp
  finally show ?thesis .
qed

lemma distinct_encodeStd: "distinct encodeStd"
  unfolding encodeStd_def by code_simp

lemma decodeMap_encodeStd:
  assumes "i < 64"
  shows "decodeMap (encodeStd ! i) = Some i"
proof -
  have "map_of (zip encodeStd [0..<64]) (encodeStd ! i) = Some ([0..<64] ! i)"
    using assms by (intro map_of_zip_nth) (simp_all add: length_encodeStd distinct_encodeStd)
  with assms show ?thesis by (simp add: decodeMap_def)
qed

lemma reassemble:
  fixes v :: nat
  assumes "v < 16777216"
  shows "v div 262144 mod 64 * 262144 + v div 4096 mod 64 * 4096 + v div 64 mod 64 * 64
           + v mod 64 = v"
proof -
  define w1 where "w1 = v div 64"
  define w2 where "w2 = w1 div 64"
  define w3 where "w3 = w2 div 64"
  have d2: "v div 4096 = w2" unfolding w2_def w1_def by (simp add: div_mult2_eq)
  have d3: "v div 262144 = w3" unfolding w3_def w2_def w1_def by (simp add: div_mult2_eq)
  have e0: "v = w1 * 64 + v mod 64" unfolding w1_def by simp
  have e1: "w1 = w2 * 64 + w1 mod 64" unfolding w2_def by simp
  have e2: "w2 = w3 * 64 + w2 mod 64" unfolding w3_def by simp
  have small: "w3 < 64" using assms unfolding d3[symmetric] by simp
  then have m3: "w3 mod 64 = w3" by simp
  show ?thesis
    unfolding d2 d3 w1_def[symmetric] m3 using e0 e1 e2 by linarith
qed

lemma div_mod_top:
  fixes q r n :: nat
  assumes "r < n"
  shows "(q * n + r) div n = q" and "(q * n + r) mod n = r"
  using assms by simp_all

lemma quantum_bytes_3:
  fixes a b c :: char
  defines "v \<equiv> of_char a * 65536 + of_char b * 256 + of_char c :: nat"
  shows "quantum_bytes [v div 262144 mod 64, v div 4096 mod 64, v div 64 mod 64, v mod 64] = [a, b, c]"
proof -
  have a: "(of_char a :: nat) < 256" and b: "(of_char b :: nat) < 256" and c: "(of_char c :: nat) < 256"
    by simp_all
  then have v: "v < 16777216" unfolding v_def by linarith
  have r: "of_char b * 256 + of_char c < (65536 :: nat)" using b c by linarith
  have b0: "v div 65536 = of_char a"
    unfolding v_def using div_mod_top(1)[OF r, of "of_char a"] by (simp add: add.assoc)
  have b1: "v div 256 = of_char a * 256 + of_char b"
    unfolding v_def using div_mod_top(1)[OF c, of "of_char a * 256 + of_char b"]
    by (simp add: add.assoc distrib_right)
  have v2: "v = (of_char a * 256 + of_char b) * 256 + of_char c"
    unfolding v_def by simp
  have c1: "char_of (of_char a * 256 + of_char b :: nat) = b"
    using div_mod_top(2)[OF b, of "of_char a"] by (simp add: char_of_eq_iff take_bit_eq_mod)
  have c2: "char_of v = c"
    unfolding v2 using div_mod_top(2)[OF c, of "of_char a * 256 + of_char b"]
    by (simp add: char_of_eq_iff take_bit_eq_mod)
  show ?thesis
    by (simp add: quantum_bytes_def Let_def reassemble[OF v] b0 b1 c1 c2)
qed

lemma quantum_bytes_2:
  fixes a b :: char
  defines "v \<equiv> of_char a * 65536 + of_char b * 256 :: nat"
  shows "quantum_bytes [v div 262144 mod 64, v div 4096 mod 64, v div 64 mod 64] = [a, b]"
proof -
  have a: "(of_char a :: nat) < 256" and b: "(of_char b :: nat) < 256"
    by simp_all
  then have v: "v < 16777216" unfolding v_def by linarith
  have v2: "v = (of_char a * 1024 + of_char b * 4) * 64" unfolding v_def by simp
  have m: "v mod 64 = 0" unfolding v2 by simp
  have r: "of_char b * 256 < (65536 :: nat)" using b by linarith
  have b0: "v div 65536 = of_char a"
    unfolding v_def using div_mod_top(1)[OF r, of "of_char a"] by simp
  have b1: "v div 256 = of_char a * 256 + of_char b"
    unfolding v_def by simp
  have c1: "char_of (of_char a * 256 + of_char b :: nat) = b"
    using div_mod_top(2)[OF b, of "of_char a"] by (simp add: char_of_eq_iff take_bit_eq_mod)
  have top: "v div 262144 mod 64 = v div 262144" using v by simp
  from reassemble[OF v] m
  have "v div 262144 * 262144 + v div 4096 mod 64 * 4096 + v div 64 mod 64 * 64 = v"
    unfolding top by simp
  then show ?thesis
    by (simp add: quantum_bytes_def Let_def b0 b1 c1 top)
qed

lemma quantum_bytes_1:
  fixes a :: char
  defines "v \<equiv> of_char a * 65536 :: nat"
  shows "quantum_bytes [v div 262144 mod 64, v div 4096 mod 64] = [a]"
proof -
  have a: "(of_char a :: nat) < 256"
    by simp
  then have v: "v < 16777216" unfolding v_def by linarith
  have v2: "v = (of_char a * 1024) * 64" and v3: "v div 64 = (of_char a * 16) * 64"
    unfolding v_def by simp_all
  have m: "v mod 64 = 0" unfolding v2 by simp
  have m1: "v div 64 mod 64 = 0" unfolding v3 by simp
  have b0: "v div 65536 = of_char a"
    unfolding v_def by simp
  have top: "v div 262144 mod 64 = v div 262144" using v by simp
  from reassemble[OF v] m m1
  have "v div 262144 * 262144 + v div 4096 mod 64 * 4096 = v"
    unfolding top by simp
  then show ?thesis
    by (simp add: quantum_bytes_def Let_def b0 top)
qed

lemma Decode_EncodeToString_roundtrip: "Decode [] (EncodeToString s) = Inr s"
proof (induction s rule: EncodeToString.induct)
  case (1 a b c rest)
  let ?val = "of_char a * 2 ^ 16 + of_char b * 2 ^ 8 + of_char c :: nat"
  let ?e0 = "encodeStd ! (?val div 2 ^ 18 mod 64)" and ?e1 = "encodeStd ! (?val div 2 ^ 12 mod 64)"
    and ?e2 = "encodeStd ! (?val div 2 ^ 6 mod 64)" and ?e3 = "encodeStd ! (?val mod 64)"
  have enc: "EncodeToString (a # b # c # rest) = ?e0 # ?e1 # ?e2 # ?e3 # EncodeToString rest"
    by (simp only: EncodeToString.simps Let_def)
  have v: "decodeMap ?e0 = Some (?val div 2 ^ 18 mod 64)"
    "decodeMap ?e1 = Some (?val div 2 ^ 12 mod 64)"
    "decodeMap ?e2 = Some (?val div 2 ^ 6 mod 64)" "decodeMap ?e3 = Some (?val mod 64)"
    by (rule decodeMap_encodeStd, simp)+
  have q: "quantum_bytes [?val div 2 ^ 18 mod 64, ?val div 2 ^ 12 mod 64, ?val div 2 ^ 6 mod 64,
             ?val mod 64] = [a, b, c]"
    using quantum_bytes_3[of a b c] by simp
  show ?case
    unfolding enc Decode_quantum[OF v] q using 1 by simp
next
  case (2 a b)
  let ?val = "of_char a * 2 ^ 16 + of_char b * 2 ^ 8 :: nat"
  let ?e0 = "encodeStd ! (?val div 2 ^ 18 mod 64)" and ?e1 = "encodeStd ! (?val div 2 ^ 12 mod 64)"
    and ?e2 = "encodeStd ! (?val div 2 ^ 6 mod 64)"
  have enc: "EncodeToString [a, b] = [?e0, ?e1, ?e2, padChar]"
    by (simp only: EncodeToString.simps Let_def)
  have v: "decodeMap ?e0 = Some (?val div 2 ^ 18 mod 64)"
    "decodeMap ?e1 = Some (?val div 2 ^ 12 mod 64)"
    "decodeMap ?e2 = Some (?val div 2 ^ 6 mod 64)"
    by (rule decodeMap_encodeStd, simp)+
  have q: "quantum_bytes [?val div 2 ^ 18 mod 64, ?val div 2 ^ 12 mod 64, ?val div 2 ^ 6 mod 64]
             = [a, b]"
    using quantum_bytes_2[of a b] by simp
  show ?case
    unfolding enc Decode_padded_1[OF v] q by simp
next
  case (3 a)
  let ?val = "of_char a * 2 ^ 16 :: nat"
  let ?e0 = "encodeStd ! (?val div 2 ^ 18 mod 64)" and ?e1 = "encodeStd ! (?val div 2 ^ 12 mod 64)"
  have enc: "EncodeToString [a] = [?e0, ?e1, padChar, padChar]"
    by (simp only: EncodeToString.simps Let_def)
  have v: "decodeMap ?e0 = Some (?val div 2 ^ 18 mod 64)"
    "decodeMap ?e1 = Some (?val div 2 ^ 12 mod 64)"
    by (rule decodeMap_encodeStd, simp)+
  have q: "quantum_bytes [?val div 2 ^ 18 mod 64, ?val div 2 ^ 12 mod 64] = [a]"
    using quantum_bytes_1[of a] by simp
  show ?case
    unfolding enc Decode_padded_2[OF v] q by simp
next
  case 4
  show ?case by simp
qed

lemma isBase64Encoded_EncodeToString: "isBase64Encoded (EncodeToString s)"
  by (simp add: isBase64Encoded_def DecodeString_def Decode_EncodeToString_roundtrip)

text \<open>
  C9. \<open>base64Encode\<close> is idempotent; an input that decodes as standard base64 is returned
  unchanged, and any other input is returned as its standard base64 encoding, which
  itself decodes (to the input), so that a second application returns it unchanged.
\<close>

theorem base64Encode_idempotent:
  "base64Encode (base64Encode s) = base64Encode s
   \<and> base64Encode s = (if isBase64Encoded s then s else EncodeToString s)
   \<and> isBase64Encoded (base64Encode s)
   \<and> DecodeString (EncodeToString s) = Inr s"
  by (simp add: base64Encode_def isBase64Encoded_EncodeToString DecodeString_def
        Decode_EncodeToString_roundtrip)

theorem base64Encode_idempotent_witness:
  "base64Encode ''hi'' = ''aGk='' \<and> base64Encode ''aGk='' = ''aGk=''"
  using base64Encode_idempotent [of "''hi''"]
  by (simp add: base64Encode_def isBase64Encoded_def DecodeString_def decodeMap_def encodeStd_def
        upt_rec is_newline_def padChar_def)

end
